theory Spec2Isabelle
  imports Main
begin

section \<open>JavaScript values as the handlers see them\<close>

text \<open>
  The request body is what \<^verbatim>\<open>bodyParser.json()\<close> hands to the handlers: a JSON value.
  A property that is not there reads as \<^verbatim>\<open>undefined\<close>, which is a value of its own
  (\<open>JUndefined\<close>); a parsed body never contains it, a record built by a handler may.
  \<open>JServerTimestamp\<close> is the sentinel \<^verbatim>\<open>admin.firestore.FieldValue.serverTimestamp()\<close>
  that the handlers put into the record they write; the store puts the commit time in
  its place at every write.

  Numbers are the integers among the JavaScript numbers: every amount of the data model
  is an integer number of the smallest currency unit. \<^verbatim>\<open>NaN\<close> is a number too: no
  parsed body contains it, but \<^verbatim>\<open>Number(v)\<close> returns it. A string is a sequence of
  code units below 256. An object is the list of its own properties, the first binding
  of a key being the property.

  The conversions \<open>to_str\<close> and \<open>to_number\<close> below are those of JavaScript on a part
  of the values only, which their texts name. Every theorem that depends on the result
  of a conversion says of which values it speaks: identifiers that are strings,
  amounts that are numbers.
\<close>

datatype jsnum = Fin int | NaN

datatype jsval =
    JUndefined
  | JNull
  | JBool bool
  | JNum jsnum
  | JStr string
  | JArr "jsval list"
  | JObj "(string \<times> jsval) list"
  | JServerTimestamp

text \<open>\<^verbatim>\<open>!v\<close> is \<open>\<not> truthy v\<close>: the falsy values are undefined, null, false, 0 and the
  empty string.\<close>

fun truthy :: "jsval \<Rightarrow> bool" where
  "truthy JUndefined = False"
| "truthy JNull = False"
| "truthy (JBool b) = b"
| "truthy (JNum n) = (n \<noteq> Fin 0 \<and> n \<noteq> NaN)"
| "truthy (JStr s) = (s \<noteq> [])"
| "truthy (JArr xs) = True"
| "truthy (JObj kvs) = True"
| "truthy JServerTimestamp = True"

fun nullish :: "jsval \<Rightarrow> bool" where
  "nullish JUndefined = True"
| "nullish JNull = True"
| "nullish v = False"

text \<open>\<^verbatim>\<open>a || b\<close> and \<^verbatim>\<open>a && b\<close> return one of their operands.\<close>

definition js_or :: "jsval \<Rightarrow> jsval \<Rightarrow> jsval" where
  "js_or a b = (if truthy a then a else b)"

definition js_and :: "jsval \<Rightarrow> jsval \<Rightarrow> jsval" where
  "js_and a b = (if truthy a then b else a)"

fun typeof :: "jsval \<Rightarrow> string" where
  "typeof JUndefined = ''undefined''"
| "typeof JNull = ''object''"
| "typeof (JBool b) = ''boolean''"
| "typeof (JNum n) = ''number''"
| "typeof (JStr s) = ''string''"
| "typeof (JArr xs) = ''object''"
| "typeof (JObj kvs) = ''object''"
| "typeof JServerTimestamp = ''object''"

text \<open>
  \<^verbatim>\<open>v.k\<close> and \<^verbatim>\<open>v[k]\<close> for the keys the handlers read (\<^verbatim>\<open>orderData\<close>, \<^verbatim>\<open>userId\<close>,
  \<^verbatim>\<open>name\<close>, ...: none is an index, \<^verbatim>\<open>length\<close> or a property of a prototype). On an
  object it is the property or undefined; on an array, a string, a number or a boolean
  it is undefined. On null and undefined JavaScript throws a TypeError: every place
  where the receiver can be null or undefined tests \<open>nullish\<close> first and takes the
  branch of the enclosing \<^verbatim>\<open>catch\<close>.
\<close>

fun get :: "jsval \<Rightarrow> string \<Rightarrow> jsval" where
  "get (JObj kvs) k = (case map_of kvs k of Some v \<Rightarrow> v | None \<Rightarrow> JUndefined)"
| "get v k = JUndefined"

subsection \<open>Strings\<close>

text \<open>\<^verbatim>\<open>String.prototype.trim\<close> strips white space and line terminators at both ends.
  Among the code units below 256 these are tab, line feed, vertical tab, form feed,
  carriage return, space and no-break space; the regular expression class \<^verbatim>\<open>\s\<close> is
  the same set. On ASCII strings \<open>trim\<close> is exact whatever the encoding of the other
  characters is taken to be.\<close>

definition is_space :: "char \<Rightarrow> bool" where
  "is_space c = ((of_char c :: nat) \<in> {9, 10, 11, 12, 13, 32, 160})"

definition trim :: "string \<Rightarrow> string" where
  "trim s = rev (dropWhile is_space (rev (dropWhile is_space s)))"

definition ascii :: "string \<Rightarrow> bool" where
  "ascii s = list_all (\<lambda>c. (of_char c :: nat) < 128) s"



definition digit :: "nat \<Rightarrow> char" where
  "digit d = ''0123456789'' ! d"

fun nat_to_str :: "nat \<Rightarrow> string" where
  "nat_to_str n = (if n < 10 then [digit n] else nat_to_str (n div 10) @ [digit (n mod 10)])"

declare nat_to_str.simps [simp del]

definition int_to_str :: "int \<Rightarrow> string" where
  "int_to_str i = (if i < 0 then CHR ''-'' # nat_to_str (nat (- i)) else nat_to_str (nat i))"

fun join_comma :: "string list \<Rightarrow> string" where
  "join_comma [] = []"
| "join_comma [s] = s"
| "join_comma (s # t # ss) = s @ '','' @ join_comma (t # ss)"

text \<open>\<^verbatim>\<open>String(v)\<close>, a template literal's \<^verbatim>\<open>${v}\<close> and \<^verbatim>\<open>v + "..."\<close>: the string of a
  value. An array is its elements joined by commas, null and undefined elements being
  empty. This is JavaScript's conversion on undefined, null, booleans, strings,
  integers below \<open>10\<^sup>2\<^sup>1\<close> in absolute value, objects without a property
  \<^verbatim>\<open>toString\<close> of their own, and arrays of such values. (A larger number is printed
  with an exponent, and an object with a \<^verbatim>\<open>toString\<close> of its own makes the
  conversion throw.)\<close>

fun to_str :: "jsval \<Rightarrow> string" where
  "to_str JUndefined = ''undefined''"
| "to_str JNull = ''null''"
| "to_str (JBool b) = (if b then ''true'' else ''false'')"
| "to_str (JNum n) = (case n of Fin i \<Rightarrow> int_to_str i | NaN \<Rightarrow> ''NaN'')"
| "to_str (JStr s) = s"
| "to_str (JArr xs) = join_comma (map (\<lambda>v. if nullish v then [] else to_str v) xs)"
| "to_str (JObj kvs) = ''[object Object]''"
| "to_str JServerTimestamp = ''[object Object]''"

subsection \<open>Numbers\<close>

definition digit_val :: "char \<Rightarrow> nat option" where
  "digit_val c =
     (let n = (of_char c :: nat) in if 48 \<le> n \<and> n \<le> 57 then Some (n - 48) else None)"

fun parse_digits :: "nat \<Rightarrow> string \<Rightarrow> nat option" where
  "parse_digits acc [] = Some acc"
| "parse_digits acc (c # cs) =
     (case digit_val c of None \<Rightarrow> None | Some d \<Rightarrow> parse_digits (10 * acc + d) cs)"

text \<open>\<^verbatim>\<open>Number(s)\<close> of a string: white space around it is dropped, the empty string is 0,
  a decimal integer with an optional sign is its value. On these strings, and on those
  that are no numeric literal at all, this is JavaScript's conversion; a literal with a
  fraction, an exponent or a radix prefix, or \<^verbatim>\<open>Infinity\<close>, is a number in JavaScript
  and is outside the model, which reads it as \<^verbatim>\<open>NaN\<close>.\<close>

definition str_to_num :: "string \<Rightarrow> jsnum" where
  "str_to_num s =
     (let t = trim s in
      if t = [] then Fin 0
      else if hd t = CHR ''-'' then
        (if tl t = [] then NaN
         else case parse_digits 0 (tl t) of None \<Rightarrow> NaN | Some n \<Rightarrow> Fin (- int n))
      else if hd t = CHR ''+'' then
        (if tl t = [] then NaN
         else case parse_digits 0 (tl t) of None \<Rightarrow> NaN | Some n \<Rightarrow> Fin (int n))
      else case parse_digits 0 t of None \<Rightarrow> NaN | Some n \<Rightarrow> Fin (int n))"

fun to_number :: "jsval \<Rightarrow> jsnum" where
  "to_number JUndefined = NaN"
| "to_number JNull = Fin 0"
| "to_number (JBool b) = Fin (if b then 1 else 0)"
| "to_number (JNum n) = n"
| "to_number (JStr s) = str_to_num s"
| "to_number (JArr xs) = str_to_num (to_str (JArr xs))"
| "to_number (JObj kvs) = NaN"
| "to_number JServerTimestamp = NaN"

text \<open>\<^verbatim>\<open>a !== b\<close> on two numbers: \<^verbatim>\<open>NaN\<close> differs from everything, itself included.\<close>

fun num_neq :: "jsnum \<Rightarrow> jsnum \<Rightarrow> bool" where
  "num_neq (Fin a) (Fin b) = (a \<noteq> b)"
| "num_neq a b = True"

text \<open>\<^verbatim>\<open>Number(v) || 0\<close>.\<close>

definition number_or_zero :: "jsval \<Rightarrow> jsval" where
  "number_or_zero v = js_or (JNum (to_number v)) (JNum (Fin 0))"

section \<open>Collaborators and configuration\<close>

text \<open>
  What the handlers call but do not implement: the process environment, the crypto
  library, the identity provider, the payment gateway client and the document store.
  Each is a field of the environment, so every theorem holds for whatever they return.
  \<^item> \<open>RAZORPAY_KEY_SECRET\<close>: \<^verbatim>\<open>process.env.RAZORPAY_KEY_SECRET\<close>, \<open>None\<close> when it is not set;
  \<^item> \<open>hmac_sha256_hex key msg\<close>:
    \<^verbatim>\<open>crypto.createHmac("sha256", key).update(msg).digest("hex")\<close>;
  \<^item> \<open>verifyIdToken t\<close>: \<^verbatim>\<open>admin.auth().verifyIdToken(t)\<close>, the \<^verbatim>\<open>uid\<close> of the decoded
    token, \<open>None\<close> when the call throws;
  \<^item> \<open>orders_create\<close>, \<open>orders_fetch\<close>: \<^verbatim>\<open>razorpay.orders.create\<close> and
    \<^verbatim>\<open>razorpay.orders.fetch\<close>, \<open>None\<close> when the call throws;
  \<^item> \<open>store_accepts id doc\<close>: whether the store can be reached and takes the path and
    the document of \<^verbatim>\<open>db.collection("orders").doc(id).set(doc)\<close>; when it does not,
    \<^verbatim>\<open>doc\<close> or \<^verbatim>\<open>set\<close> throws and nothing is written;
  \<^item> \<open>commit_time\<close>: the time of the store at the write of this call.
\<close>

record env =
  RAZORPAY_KEY_SECRET :: "string option"
  hmac_sha256_hex :: "string \<Rightarrow> string \<Rightarrow> string"
  verifyIdToken :: "string \<Rightarrow> string option"
  orders_create :: "jsval \<Rightarrow> jsval option"
  orders_fetch :: "jsval \<Rightarrow> jsval option"
  store_accepts :: "string \<Rightarrow> jsval \<Rightarrow> bool"
  commit_time :: int

text \<open>A request: the \<^verbatim>\<open>Authorization\<close> header when there is one, and the parsed body.\<close>

record request =
  authorization :: "string option"
  body :: jsval

text \<open>
  A document of the store: the record as the handler has written it, and the commit
  time that the store has put in the place of the \<^verbatim>\<open>serverTimestamp\<close> sentinel
  (\<^verbatim>\<open>createdAt\<close>, \<^verbatim>\<open>datePlaced\<close>) at that write. The \<^verbatim>\<open>orders\<close> collection holds the
  documents by identifier.
\<close>

record document =
  written :: jsval
  committed :: int

type_synonym store = "string \<rightharpoonup> document"

text \<open>Whether a value is \<^verbatim>\<open>undefined\<close> or has \<^verbatim>\<open>undefined\<close> somewhere inside.\<close>

fun has_undefined :: "jsval \<Rightarrow> bool" where
  "has_undefined JUndefined = True"
| "has_undefined (JArr xs) = list_ex has_undefined xs"
| "has_undefined (JObj kvs) = list_ex (\<lambda>kv. has_undefined (snd kv)) kvs"
| "has_undefined v = False"

text \<open>
  \<^verbatim>\<open>db.collection("orders").doc(docId).set(doc)\<close>: the new store, or \<open>None\<close> when the
  call throws. The store refuses a document that holds \<^verbatim>\<open>undefined\<close> anywhere (no
  server sets \<^verbatim>\<open>ignoreUndefinedProperties\<close>); a write that goes through replaces
  whatever was stored under the identifier and carries the commit time.
\<close>

definition store_set :: "env \<Rightarrow> string \<Rightarrow> jsval \<Rightarrow> store \<Rightarrow> store option" where
  "store_set e docId doc docs =
     (if has_undefined doc then None
      else if store_accepts e docId doc
      then Some (docs(docId \<mapsto> \<lparr> written = doc, committed = commit_time e \<rparr>))
      else None)"

text \<open>
  The errors of the two operations, by the names of the interface. The handlers answer
  them with a status and an \<^verbatim>\<open>error\<close> text:
  \<^item> \<open>InvalidAmount\<close>: 400, \<^verbatim>\<open>Valid amount (in paise) is required\<close>;
  \<^item> \<open>GatewayUnavailable\<close>: 500, \<^verbatim>\<open>Error creating order\<close>;
  \<^item> \<open>MissingOrderData\<close>: 400, \<^verbatim>\<open>orderData is required\<close> (drop-in server:
    \<^verbatim>\<open>Missing orderData\<close>);
  \<^item> \<open>MissingField f\<close>: 400, \<^verbatim>\<open>Missing required field: f\<close>;
  \<^item> \<open>Unauthenticated\<close>: 401, from the middleware of the drop-in server;
  \<^item> \<open>IdentityMismatch\<close>: 403, \<^verbatim>\<open>Auth token UID does not match order userId\<close>;
  \<^item> \<open>InvalidSignature\<close>: 400, \<^verbatim>\<open>Invalid payment signature - verification failed\<close>
    (drop-in server: \<^verbatim>\<open>Invalid payment signature.\<close>);
  \<^item> \<open>AmountMismatch\<close>: 400, \<^verbatim>\<open>Amount mismatch with Razorpay order\<close>;
  \<^item> \<open>GatewayVerificationFailed\<close>: 500, \<^verbatim>\<open>Failed to verify Razorpay order\<close>;
  \<^item> \<open>PersistenceFailure\<close>: 500, \<^verbatim>\<open>Error saving order\<close>, the answer of the handler's
    outer \<^verbatim>\<open>catch\<close>.
\<close>

datatype error =
    InvalidAmount
  | GatewayUnavailable
  | MissingOrderData
  | MissingField string
  | Unauthenticated
  | IdentityMismatch
  | InvalidSignature
  | AmountMismatch
  | GatewayVerificationFailed
  | PersistenceFailure

text \<open>\<^verbatim>\<open>process.env.RAZORPAY_KEY_SECRET || ""\<close>: the key of the HMAC.\<close>

definition signing_key :: "env \<Rightarrow> string" where
  "signing_key e = (case RAZORPAY_KEY_SECRET e of None \<Rightarrow> [] | Some k \<Rightarrow> k)"

section \<open>The revised server\<close>

subsection \<open>POST /create-order\<close>

text \<open>\<^verbatim>\<open>isNaN(v)\<close> and \<^verbatim>\<open>Number(v) <= 0\<close>.\<close>

definition isNaN :: "jsval \<Rightarrow> bool" where
  "isNaN v = (to_number v = NaN)"

definition not_positive :: "jsval \<Rightarrow> bool" where
  "not_positive v = (case to_number v of Fin n \<Rightarrow> n \<le> 0 | NaN \<Rightarrow> False)"

text \<open>\<^verbatim>\<open>Math.round(Number(v))\<close>: rounding leaves an integer and \<^verbatim>\<open>NaN\<close> as they are.\<close>

definition round_number :: "jsval \<Rightarrow> jsval" where
  "round_number v = JNum (to_number v)"

text \<open>The \<^verbatim>\<open>options\<close> of the gateway order: the amount as the caller gave it (paise),
  \<open>now\<close> being \<^verbatim>\<open>Date.now()\<close>.\<close>

definition options_revised :: "int \<Rightarrow> jsval \<Rightarrow> jsval" where
  "options_revised now amount =
     JObj [(''amount'', round_number amount),
           (''currency'', JStr ''INR''),
           (''receipt'', JStr (''receipt_'' @ to_str (JNum (Fin now))))]"

definition create_order_revised :: "env \<Rightarrow> int \<Rightarrow> request \<Rightarrow> error + jsval" where
  "create_order_revised e now req =
     (if nullish (body req) then Inl GatewayUnavailable
      else
        let amount = get (body req) ''amount'' in
        if \<not> truthy amount \<or> isNaN amount \<or> not_positive amount then Inl InvalidAmount
        else
          case orders_create e (options_revised now amount) of
            None \<Rightarrow> Inl GatewayUnavailable
          | Some order \<Rightarrow>
              if nullish order then Inl GatewayUnavailable
              else Inr (JObj [(''success'', JBool True),
                              (''id'', get order ''id''),
                              (''order'', order)]))"

subsection \<open>POST /save-order\<close>

text \<open>\<^verbatim>\<open>authHeader.match(/^Bearer (.+)$/)\<close>: the token is everything after the prefix,
  at least one character, none of them a line terminator.\<close>

definition bearer_token :: "string \<Rightarrow> string option" where
  "bearer_token h =
     (let t = drop 7 h in
      if take 7 h = ''Bearer '' \<and> t \<noteq> [] \<and>
         list_all (\<lambda>c. (of_char c :: nat) \<noteq> 10 \<and> (of_char c :: nat) \<noteq> 13) t
      then Some t else None)"

definition verifyIdTokenFromRequest :: "env \<Rightarrow> request \<Rightarrow> string option" where
  "verifyIdTokenFromRequest e req =
     (let authHeader = (case authorization req of None \<Rightarrow> [] | Some h \<Rightarrow> h) in
      case bearer_token authHeader of
        None \<Rightarrow> None
      | Some idToken \<Rightarrow> verifyIdToken e idToken)"

definition required :: "string list" where
  "required = [''userId'', ''total'', ''razorpay_payment_id'', ''razorpay_order_id'',
               ''razorpay_signature'']"

text \<open>The loop over \<^verbatim>\<open>required\<close>: the first field whose value is falsy.\<close>

fun missing_required :: "jsval \<Rightarrow> string list \<Rightarrow> string option" where
  "missing_required orderData [] = None"
| "missing_required orderData (f # fs) =
     (if \<not> truthy (get orderData f) then Some f else missing_required orderData fs)"

definition expectedSignature :: "env \<Rightarrow> jsval \<Rightarrow> string" where
  "expectedSignature e orderData =
     hmac_sha256_hex e (signing_key e)
       (to_str (get orderData ''razorpay_order_id'') @ ''|'' @
        to_str (get orderData ''razorpay_payment_id''))"

definition candidateId :: "jsval \<Rightarrow> jsval" where
  "candidateId orderData =
     (let order_id = get orderData ''order_id'';
          razorpay_order_id = get orderData ''razorpay_order_id''
      in js_or (js_or (js_and order_id (JStr (trim (to_str order_id))))
                      (js_and razorpay_order_id (JStr (trim (to_str razorpay_order_id)))))
               JNull)"

text \<open>\<open>fresh\<close> is the identifier of \<^verbatim>\<open>ordersCol.doc()\<close>, generated for this call.\<close>

definition finalDocId :: "string \<Rightarrow> jsval \<Rightarrow> string" where
  "finalDocId fresh orderData =
     (let c = candidateId orderData in if truthy c then to_str c else fresh)"

text \<open>One item of the record. Reading a property of a null item throws.\<close>

definition format_item_revised :: "jsval \<Rightarrow> jsval option" where
  "format_item_revised it =
     (if nullish it then None
      else Some (JObj [(''name'', get it ''name''),
                       (''quantity'',
                          js_or (js_or (get it ''qty'') (get it ''quantity'')) (JNum (Fin 1))),
                       (''price'', js_or (get it ''price'') (JNum (Fin 0)))]))"

fun map_items :: "(jsval \<Rightarrow> jsval option) \<Rightarrow> jsval list \<Rightarrow> jsval list option" where
  "map_items f [] = Some []"
| "map_items f (it # its) =
     (case f it of
        None \<Rightarrow> None
      | Some r \<Rightarrow> (case map_items f its of None \<Rightarrow> None | Some rs \<Rightarrow> Some (r # rs)))"

definition items_revised :: "jsval \<Rightarrow> jsval option" where
  "items_revised items =
     (case items of
        JArr its \<Rightarrow> map_option JArr (map_items format_item_revised its)
      | _ \<Rightarrow> Some (JArr []))"

definition address_revised :: "jsval \<Rightarrow> jsval" where
  "address_revised customer =
     (if truthy (js_and customer (get customer ''address'')) then
        JStr (to_str (get customer ''address'') @ '', '' @
              to_str (js_or (get customer ''city'') (JStr [])) @ '', '' @
              to_str (js_or (get customer ''state'') (JStr [])) @ '' - '' @
              to_str (js_or (get customer ''pin'') (JStr [])))
      else JNull)"

text \<open>\<^verbatim>\<open>formattedOrder\<close>; \<open>None\<close> when building it throws.\<close>

definition formattedOrder_revised :: "string \<Rightarrow> jsval \<Rightarrow> jsval option" where
  "formattedOrder_revised docId orderData =
     (let customer = get orderData ''customer'' in
      case items_revised (get orderData ''items'') of
        None \<Rightarrow> None
      | Some items \<Rightarrow>
          Some (JObj
            [(''orderId'', JStr docId),
             (''userId'', get orderData ''userId''),
             (''customerName'', js_or (js_and customer (get customer ''name'')) JNull),
             (''phone'', js_or (js_and customer (get customer ''phone'')) JNull),
             (''address'', address_revised customer),
             (''subtotal'', number_or_zero (get orderData ''subtotal'')),
             (''shipping'', number_or_zero (get orderData ''shipping'')),
             (''totalAmount'', number_or_zero (get orderData ''total'')),
             (''paymentId'', js_or (get orderData ''razorpay_payment_id'') JNull),
             (''razorpay_order_id'', js_or (get orderData ''razorpay_order_id'') JNull),
             (''razorpay_signature'', js_or (get orderData ''razorpay_signature'') JNull),
             (''paymentStatus'', js_or (get orderData ''status'') (JStr ''Paid'')),
             (''items'', items),
             (''createdAt'', JServerTimestamp),
             (''rawPayload'', orderData)]))"

text \<open>Step 3 of the handler: compose the document and save it.\<close>

definition persist_revised ::
  "env \<Rightarrow> string \<Rightarrow> jsval \<Rightarrow> store \<Rightarrow> (error + jsval) \<times> store" where
  "persist_revised e fresh orderData docs =
     (let docId = finalDocId fresh orderData in
      case formattedOrder_revised docId orderData of
        None \<Rightarrow> (Inl PersistenceFailure, docs)
      | Some doc \<Rightarrow>
          (case store_set e docId doc docs of
             None \<Rightarrow> (Inl PersistenceFailure, docs)
           | Some docs' \<Rightarrow>
               (Inr (JObj [(''success'', JBool True), (''id'', JStr docId)]), docs')))"

text \<open>Step 2: fetch the gateway order and compare its amount with the client's total.\<close>

definition reconcile_revised ::
  "env \<Rightarrow> string \<Rightarrow> jsval \<Rightarrow> store \<Rightarrow> (error + jsval) \<times> store" where
  "reconcile_revised e fresh orderData docs =
     (case orders_fetch e (get orderData ''razorpay_order_id'') of
        None \<Rightarrow> (Inl GatewayVerificationFailed, docs)
      | Some gatewayOrder \<Rightarrow>
          if nullish gatewayOrder then (Inl GatewayVerificationFailed, docs)
          else
            let gatewayAmount = to_number (get gatewayOrder ''amount'');
                clientTotal = to_number (get orderData ''total'')
            in if num_neq gatewayAmount clientTotal then (Inl AmountMismatch, docs)
               else persist_revised e fresh orderData docs)"

text \<open>Step 1: verify the signature.\<close>

definition verify_revised ::
  "env \<Rightarrow> string \<Rightarrow> jsval \<Rightarrow> store \<Rightarrow> (error + jsval) \<times> store" where
  "verify_revised e fresh orderData docs =
     (if get orderData ''razorpay_signature'' \<noteq> JStr (expectedSignature e orderData)
      then (Inl InvalidSignature, docs)
      else reconcile_revised e fresh orderData docs)"

text \<open>The handler. A body that is null or undefined makes the destructuring throw, which
  the handler's \<^verbatim>\<open>catch\<close> answers.\<close>

definition save_order_revised ::
  "env \<Rightarrow> string \<Rightarrow> request \<Rightarrow> store \<Rightarrow> (error + jsval) \<times> store" where
  "save_order_revised e fresh req docs =
     (if nullish (body req) then (Inl PersistenceFailure, docs)
      else
        let orderData = get (body req) ''orderData'' in
        if \<not> truthy orderData \<or> typeof orderData \<noteq> ''object'' then (Inl MissingOrderData, docs)
        else
          case missing_required orderData required of
            Some f \<Rightarrow> (Inl (MissingField f), docs)
          | None \<Rightarrow>
              (case verifyIdTokenFromRequest e req of
                 Some uid \<Rightarrow>
                   if get orderData ''userId'' \<noteq> JStr uid then (Inl IdentityMismatch, docs)
                   else verify_revised e fresh orderData docs
               | None \<Rightarrow> verify_revised e fresh orderData docs))"

section \<open>The drop-in server\<close>

subsection \<open>POST /create-order\<close>

text \<open>\<^verbatim>\<open>Math.round(amount * 100)\<close>: this server takes the amount in rupees.\<close>

definition times_100 :: "jsval \<Rightarrow> jsval" where
  "times_100 v = JNum (case to_number v of Fin n \<Rightarrow> Fin (n * 100) | NaN \<Rightarrow> NaN)"

definition options_dropin :: "int \<Rightarrow> jsval \<Rightarrow> jsval" where
  "options_dropin now amount =
     JObj [(''amount'', times_100 amount),
           (''currency'', JStr ''INR''),
           (''receipt'', JStr (''receipt_'' @ to_str (JNum (Fin now))))]"

definition create_order_dropin :: "env \<Rightarrow> int \<Rightarrow> request \<Rightarrow> error + jsval" where
  "create_order_dropin e now req =
     (if nullish (body req) then Inl GatewayUnavailable
      else
        let amount = get (body req) ''amount'' in
        if \<not> truthy amount \<or> isNaN amount \<or> not_positive amount then Inl InvalidAmount
        else
          case orders_create e (options_dropin now amount) of
            None \<Rightarrow> Inl GatewayUnavailable
          | Some order \<Rightarrow> Inr order)"

subsection \<open>POST /save-order\<close>

text \<open>\<^verbatim>\<open>s.split(sep)[0]\<close>: the part of \<open>s\<close> before the first \<open>sep\<close>.\<close>

fun before_sep :: "string \<Rightarrow> string \<Rightarrow> string" where
  "before_sep sep [] = []"
| "before_sep sep (c # cs) =
     (if take (length sep) (c # cs) = sep then [] else c # before_sep sep cs)"

text \<open>The middleware \<^verbatim>\<open>verifyFirebaseToken\<close>: the \<^verbatim>\<open>uid\<close> it puts into \<^verbatim>\<open>req.user\<close>, or
  \<open>None\<close> when it answers 401. \<^verbatim>\<open>authHeader.split("Bearer ")[1]\<close> is what stands between
  the prefix and the next \<^verbatim>\<open>"Bearer "\<close>.\<close>

definition verifyFirebaseToken :: "env \<Rightarrow> request \<Rightarrow> string option" where
  "verifyFirebaseToken e req =
     (let authHeader = (case authorization req of None \<Rightarrow> [] | Some h \<Rightarrow> h) in
      if take 7 authHeader \<noteq> ''Bearer '' then None
      else verifyIdToken e (trim (before_sep ''Bearer '' (drop 7 authHeader))))"

definition verifyRazorpaySignature :: "env \<Rightarrow> jsval \<Rightarrow> jsval \<Rightarrow> jsval \<Rightarrow> bool" where
  "verifyRazorpaySignature e order_id payment_id signature =
     (if \<not> truthy order_id \<or> \<not> truthy payment_id \<or> \<not> truthy signature then False
      else
        let body = to_str order_id @ ''|'' @ to_str payment_id;
            expected = hmac_sha256_hex e (signing_key e) body
        in signature = JStr expected)"

definition isNonEmptyString :: "jsval \<Rightarrow> bool" where
  "isNonEmptyString v = (typeof v = ''string'' \<and> trim (to_str v) \<noteq> [])"

text \<open>A destructuring default: \<^verbatim>\<open>{ k = d } = obj\<close>.\<close>

definition get_default :: "jsval \<Rightarrow> string \<Rightarrow> jsval \<Rightarrow> jsval" where
  "get_default obj k d = (if get obj k = JUndefined then d else get obj k)"

definition docId_dropin :: "string \<Rightarrow> jsval \<Rightarrow> string" where
  "docId_dropin fresh orderData =
     (let order_id = get orderData ''order_id'';
          payment_id = get orderData ''payment_id''
      in if isNonEmptyString order_id then to_str order_id
         else if isNonEmptyString payment_id then to_str payment_id
         else fresh)"

text \<open>One item of the record, as the drop-in, the hardened and the first server map
  it: the properties as they are. Reading a property of a null item throws.\<close>

definition format_item_raw :: "jsval \<Rightarrow> jsval option" where
  "format_item_raw item =
     (if nullish item then None
      else Some (JObj [(''name'', get item ''name''),
                       (''quantity'', get item ''qty''),
                       (''price'', get item ''price'')]))"

text \<open>\<^verbatim>\<open>(items || []).map(...)\<close>: a truthy value that is not an array has no \<^verbatim>\<open>map\<close>.\<close>

definition items_dropin :: "jsval \<Rightarrow> jsval option" where
  "items_dropin items =
     (case js_or items (JArr []) of
        JArr its \<Rightarrow> map_option JArr (map_items format_item_raw its)
      | _ \<Rightarrow> None)"

definition address_dropin :: "jsval \<Rightarrow> string" where
  "address_dropin customer =
     trim (to_str (js_or (get customer ''address'') (JStr [])) @
           (if truthy (get customer ''city'') then '', '' @ to_str (get customer ''city'') else []) @
           (if truthy (get customer ''state'') then '', '' @ to_str (get customer ''state'') else []) @
           (if truthy (get customer ''pin'') then '' - '' @ to_str (get customer ''pin'') else []))"

definition formattedOrder_dropin :: "string \<Rightarrow> jsval \<Rightarrow> jsval option" where
  "formattedOrder_dropin uid orderData =
     (let items = get_default orderData ''items'' (JArr []);
          customer = get_default orderData ''customer'' (JObj [])
      in if nullish customer then None
         else
           case items_dropin items of
             None \<Rightarrow> None
           | Some its \<Rightarrow>
               Some (JObj
                 [(''userid'', JStr uid),
                  (''customerName'', js_or (get customer ''name'') (JStr [])),
                  (''phone'', js_or (get customer ''phone'') (JStr [])),
                  (''address'', JStr (address_dropin customer)),
                  (''totalAmount'', get orderData ''total''),
                  (''subtotal'', get orderData ''subtotal''),
                  (''shipping'', get orderData ''shipping''),
                  (''paymentId'', get orderData ''payment_id''),
                  (''orderId'', get orderData ''order_id''),
                  (''paymentStatus'', JStr ''Paid''),
                  (''datePlaced'', JServerTimestamp),
                  (''items'', its),
                  (''razorpaySignature'', js_or (get orderData ''signature'') JNull)]))"

text \<open>The handler, entered with the \<^verbatim>\<open>uid\<close> of \<^verbatim>\<open>req.user\<close>.\<close>

definition save_order_handler_dropin ::
  "env \<Rightarrow> string \<Rightarrow> string \<Rightarrow> request \<Rightarrow> store \<Rightarrow> (error + jsval) \<times> store" where
  "save_order_handler_dropin e fresh uid req docs =
     (if nullish (body req) then (Inl PersistenceFailure, docs)
      else
        let orderData = get (body req) ''orderData'' in
        if \<not> truthy orderData then (Inl MissingOrderData, docs)
        else if \<not> verifyRazorpaySignature e (get orderData ''order_id'')
                    (get orderData ''payment_id'') (get orderData ''signature'')
        then (Inl InvalidSignature, docs)
        else
          let docId = docId_dropin fresh orderData in
          case formattedOrder_dropin uid orderData of
            None \<Rightarrow> (Inl PersistenceFailure, docs)
          | Some doc \<Rightarrow>
              (case store_set e docId doc docs of
                 None \<Rightarrow> (Inl PersistenceFailure, docs)
               | Some docs' \<Rightarrow>
                   (Inr (JObj [(''success'', JBool True), (''id'', JStr docId)]), docs')))"

text \<open>The route: the middleware, then the handler.\<close>

definition save_order_dropin ::
  "env \<Rightarrow> string \<Rightarrow> request \<Rightarrow> store \<Rightarrow> (error + jsval) \<times> store" where
  "save_order_dropin e fresh req docs =
     (case verifyFirebaseToken e req of
        None \<Rightarrow> (Inl Unauthenticated, docs)
      | Some uid \<Rightarrow> save_order_handler_dropin e fresh uid req docs)"

section \<open>The hardened server\<close>





section \<open>The first server\<close>




section \<open>A test environment\<close>

text \<open>
  Stand-ins for the collaborators, for running the handlers on concrete requests: a
  digest that is not the real one but depends on key and message, an identity provider
  that knows two tokens, a gateway that has the order \<^verbatim>\<open>order_1\<close> of 10000 paise, and
  a store that can be reached and takes every path.
\<close>

definition stub_hmac :: "string \<Rightarrow> string \<Rightarrow> string" where
  "stub_hmac key msg = ''hmac('' @ key @ '';'' @ msg @ '')''"

definition test_order :: jsval where
  "test_order = JObj [(''id'', JStr ''order_1''), (''amount'', JNum (Fin 10000))]"

definition test_env :: env where
  "test_env =
     \<lparr> RAZORPAY_KEY_SECRET = Some ''s3cret'',
       hmac_sha256_hex = stub_hmac,
       verifyIdToken =
         (\<lambda>t. if t = ''token-u1'' then Some ''u1''
              else if t = ''token-u2'' then Some ''u2'' else None),
       orders_create =
         (\<lambda>opts. Some (JObj [(''id'', JStr ''order_1''), (''amount'', get opts ''amount'')])),
       orders_fetch = (\<lambda>i. if i = JStr ''order_1'' then Some test_order else None),
       store_accepts = (\<lambda>i d. True),
       commit_time = 1700000000000 \<rparr>"

text \<open>The payload of the end-to-end scenario, as the specification writes it, and the
  same payload with a \<^verbatim>\<open>userId\<close>.\<close>

definition scenario_fields :: "(string \<times> jsval) list" where
  "scenario_fields =
     [(''razorpay_order_id'', JStr ''order_1''),
      (''razorpay_payment_id'', JStr ''pay_1''),
      (''razorpay_signature'', JStr (stub_hmac ''s3cret'' ''order_1|pay_1'')),
      (''total'', JNum (Fin 10000)),
      (''customer'', JObj [(''name'', JStr ''A'')])]"

definition scenario_payload :: jsval where
  "scenario_payload = JObj scenario_fields"

definition u1_fields :: "(string \<times> jsval) list" where
  "u1_fields = (''userId'', JStr ''u1'') # scenario_fields"

definition payload_u1 :: jsval where
  "payload_u1 = JObj u1_fields"

text \<open>Fields without the property \<open>k\<close>, and with the property \<open>k\<close> set to \<open>v\<close>.\<close>

definition without :: "string \<Rightarrow> (string \<times> jsval) list \<Rightarrow> (string \<times> jsval) list" where
  "without k kvs = filter (\<lambda>kv. fst kv \<noteq> k) kvs"

definition payload_without :: "string \<Rightarrow> jsval" where
  "payload_without k = JObj (without k u1_fields)"

definition payload_with :: "string \<Rightarrow> jsval \<Rightarrow> jsval" where
  "payload_with k v = JObj ((k, v) # without k u1_fields)"

text \<open>The payload of the scenario with a signature that is not the digest.\<close>

definition forged_scenario :: jsval where
  "forged_scenario =
     JObj ((''razorpay_signature'', JStr ''forged'') #
           without ''razorpay_signature'' scenario_fields)"

text \<open>A payload for the drop-in server, and the request that carries a payload with
  the token of user \<^verbatim>\<open>u1\<close>.\<close>

definition dropin_fields :: "(string \<times> jsval) list" where
  "dropin_fields =
     [(''order_id'', JStr ''order_1''),
      (''payment_id'', JStr ''pay_1''),
      (''signature'', JStr (stub_hmac ''s3cret'' ''order_1|pay_1'')),
      (''subtotal'', JNum (Fin 9500)),
      (''shipping'', JNum (Fin 500)),
      (''total'', JNum (Fin 10000))]"

definition signed_dropin :: "string \<Rightarrow> string \<Rightarrow> jsval" where
  "signed_dropin order_id payment_id =
     JObj [(''order_id'', JStr order_id),
           (''payment_id'', JStr payment_id),
           (''signature'', JStr (stub_hmac ''s3cret'' (order_id @ ''|'' @ payment_id))),
           (''subtotal'', JNum (Fin 9500)),
           (''shipping'', JNum (Fin 500)),
           (''total'', JNum (Fin 10000))]"

definition u1_request :: "jsval \<Rightarrow> request" where
  "u1_request orderData =
     \<lparr> authorization = Some ''Bearer token-u1'', body = JObj [(''orderData'', orderData)] \<rparr>"

definition dropin_payload :: jsval where
  "dropin_payload = JObj dropin_fields"

definition dropin_payload_without :: "string \<Rightarrow> jsval" where
  "dropin_payload_without k = JObj (without k dropin_fields)"

definition dropin_payload_with :: "string \<Rightarrow> jsval \<Rightarrow> jsval" where
  "dropin_payload_with k v = JObj ((k, v) # without k dropin_fields)"



definition confirm_request :: "string option \<Rightarrow> jsval \<Rightarrow> request" where
  "confirm_request auth orderData =
     \<lparr> authorization = auth, body = JObj [(''orderData'', orderData)] \<rparr>"

section \<open>Properties\<close>

subsection \<open>Basic facts\<close>

text \<open>The definitions that running the revised handler on a concrete request unfolds,
  and those of the test environment and its payloads.\<close>

lemmas revised_run =
  save_order_revised_def verify_revised_def reconcile_revised_def persist_revised_def
  store_set_def
  formattedOrder_revised_def items_revised_def format_item_revised_def address_revised_def
  number_or_zero_def finalDocId_def candidateId_def js_or_def js_and_def trim_def
  is_space_def expectedSignature_def signing_key_def required_def
  verifyIdTokenFromRequest_def bearer_token_def Let_def

lemmas test_run =
  test_env_def test_order_def stub_hmac_def confirm_request_def scenario_payload_def
  scenario_fields_def u1_fields_def payload_u1_def payload_with_def payload_without_def
  without_def

text \<open>Likewise for the drop-in, the hardened and the first handler.\<close>

lemmas dropin_run =
  save_order_dropin_def save_order_handler_dropin_def verifyFirebaseToken_def
  verifyRazorpaySignature_def docId_dropin_def isNonEmptyString_def
  formattedOrder_dropin_def items_dropin_def format_item_raw_def address_dropin_def
  get_default_def store_set_def js_or_def trim_def is_space_def signing_key_def Let_def



lemma trim_Nil: "trim [] = []"
  by (simp add: trim_def)

lemma trim_nonempty: "trim s \<noteq> [] \<Longrightarrow> s \<noteq> []"
  by (auto simp: trim_def)

lemma truthy_get_props:
  "truthy (get v k) \<Longrightarrow> \<not> nullish v \<and> truthy v \<and> typeof v = ''object''"
  by (cases v) simp_all

lemma missing_required_None:
  "missing_required od fs = None \<longleftrightarrow> (\<forall>f \<in> set fs. truthy (get od f))"
  by (induction fs) auto

lemma missing_required_Some:
  "missing_required od fs = Some f \<Longrightarrow> f \<in> set fs \<and> \<not> truthy (get od f)"
  by (induction fs) (auto split: if_splits)

lemma required_present:
  "missing_required od required = None \<longleftrightarrow>
     truthy (get od ''userId'') \<and> truthy (get od ''total'') \<and>
     truthy (get od ''razorpay_payment_id'') \<and> truthy (get od ''razorpay_order_id'') \<and>
     truthy (get od ''razorpay_signature'')"
  by (simp add: required_def)

lemma body_not_nullish:
  "get (body req) ''orderData'' = od \<Longrightarrow> truthy od \<Longrightarrow> \<not> nullish (body req)"
  using truthy_get_props by blast

lemma required_object:
  "missing_required od required = None \<Longrightarrow> truthy od \<and> typeof od = ''object''"
  using truthy_get_props [of od "''userId''"] by (simp add: required_present)

lemma revised_missing_field:
  assumes "get (body req) ''orderData'' = od" and "truthy od" and "typeof od = ''object''"
    and "missing_required od required = Some f"
  shows "save_order_revised e fresh req docs = (Inl (MissingField f), docs)"
  using assms body_not_nullish [of req od]
  by (simp add: save_order_revised_def Let_def)

lemma revised_identity_mismatch:
  assumes "get (body req) ''orderData'' = od" and "missing_required od required = None"
    and "verifyIdTokenFromRequest e req = Some uid" and "get od ''userId'' \<noteq> JStr uid"
  shows "save_order_revised e fresh req docs = (Inl IdentityMismatch, docs)"
  using assms body_not_nullish [of req od] required_object [of od]
  by (simp add: save_order_revised_def Let_def)

lemma revised_reaches_verify:
  assumes "get (body req) ''orderData'' = od" and "missing_required od required = None"
    and "case verifyIdTokenFromRequest e req of
           Some u \<Rightarrow> get od ''userId'' = JStr u | None \<Rightarrow> True"
  shows "save_order_revised e fresh req docs = verify_revised e fresh od docs"
  using assms body_not_nullish [of req od] required_object [of od]
  by (auto simp: save_order_revised_def Let_def split: option.splits)

lemma persist_revised_not_rejected:
  "fst (persist_revised e fresh od docs) \<noteq> Inl InvalidSignature \<and>
   fst (persist_revised e fresh od docs) \<noteq> Inl AmountMismatch \<and>
   fst (persist_revised e fresh od docs) \<noteq> Inl GatewayVerificationFailed \<and>
   fst (persist_revised e fresh od docs) \<noteq> Inl IdentityMismatch"
  by (simp add: persist_revised_def Let_def split: option.splits)

lemma reconcile_revised_not_InvalidSignature:
  "fst (reconcile_revised e fresh od docs) \<noteq> Inl InvalidSignature"
  using persist_revised_not_rejected [of e fresh od docs]
  by (simp add: reconcile_revised_def Let_def split: option.splits)

lemma verify_revised_not_identity:
  "fst (verify_revised e fresh od docs) \<noteq> Inl IdentityMismatch \<and>
   fst (verify_revised e fresh od docs) \<noteq> Inl Unauthenticated"
  by (simp add: verify_revised_def reconcile_revised_def persist_revised_def Let_def
      split: option.splits)

lemma verify_revised_rejects_iff:
  "(verify_revised e fresh od docs = (Inl InvalidSignature, docs)) =
     (get od ''razorpay_signature'' \<noteq>
        JStr (hmac_sha256_hex e (signing_key e)
               (to_str (get od ''razorpay_order_id'') @ ''|'' @
                to_str (get od ''razorpay_payment_id''))))"
  "(fst (verify_revised e fresh od docs) = Inl InvalidSignature) =
     (get od ''razorpay_signature'' \<noteq>
        JStr (hmac_sha256_hex e (signing_key e)
               (to_str (get od ''razorpay_order_id'') @ ''|'' @
                to_str (get od ''razorpay_payment_id''))))"
  using reconcile_revised_not_InvalidSignature [of e fresh od docs]
  by (auto simp: verify_revised_def expectedSignature_def)

lemma verifyRazorpaySignature_present:
  "truthy order_id \<Longrightarrow> truthy payment_id \<Longrightarrow> truthy signature \<Longrightarrow>
   verifyRazorpaySignature e order_id payment_id signature =
     (signature = JStr (hmac_sha256_hex e (signing_key e)
                         (to_str order_id @ ''|'' @ to_str payment_id)))"
  by (simp add: verifyRazorpaySignature_def Let_def)

lemma missing_required_first:
  "missing_required od fs = Some f \<longleftrightarrow>
     (\<exists>pre post. fs = pre @ f # post \<and> (\<forall>g \<in> set pre. truthy (get od g)) \<and>
        \<not> truthy (get od f))"
proof (induction fs)
  case Nil
  then show ?case by simp
next
  case (Cons a fs)
  show ?case
  proof (cases "truthy (get od a)")
    case False
    have "(\<exists>pre post. a # fs = pre @ f # post \<and> (\<forall>g \<in> set pre. truthy (get od g)) \<and>
        \<not> truthy (get od f)) \<longleftrightarrow> a = f"
    proof
      assume "\<exists>pre post. a # fs = pre @ f # post \<and> (\<forall>g \<in> set pre. truthy (get od g)) \<and>
        \<not> truthy (get od f)"
      then obtain pre post where split: "a # fs = pre @ f # post"
        and pre: "\<forall>g \<in> set pre. truthy (get od g)"
        by blast
      show "a = f"
      proof (cases pre)
        case Nil
        with split show ?thesis by simp
      next
        case (Cons p ps)
        with split have "p = a" by simp
        with Cons pre False show ?thesis by simp
      qed
    next
      assume "a = f"
      with False have "a # fs = [] @ f # fs \<and> (\<forall>g \<in> set []. truthy (get od g)) \<and>
        \<not> truthy (get od f)"
        by simp
      then show "\<exists>pre post. a # fs = pre @ f # post \<and> (\<forall>g \<in> set pre. truthy (get od g)) \<and>
        \<not> truthy (get od f)"
        by blast
    qed
    with False show ?thesis by auto
  next
    case True
    have "(\<exists>pre post. a # fs = pre @ f # post \<and> (\<forall>g \<in> set pre. truthy (get od g)) \<and>
        \<not> truthy (get od f)) \<longleftrightarrow>
      (\<exists>pre post. fs = pre @ f # post \<and> (\<forall>g \<in> set pre. truthy (get od g)) \<and>
        \<not> truthy (get od f))"
    proof
      assume "\<exists>pre post. a # fs = pre @ f # post \<and> (\<forall>g \<in> set pre. truthy (get od g)) \<and>
        \<not> truthy (get od f)"
      then obtain pre post where split: "a # fs = pre @ f # post"
        and pre: "\<forall>g \<in> set pre. truthy (get od g)" and f: "\<not> truthy (get od f)"
        by blast
      show "\<exists>pre post. fs = pre @ f # post \<and> (\<forall>g \<in> set pre. truthy (get od g)) \<and>
        \<not> truthy (get od f)"
      proof (cases pre)
        case Nil
        with split have "a = f" by simp
        with True f show ?thesis by simp
      next
        case (Cons p ps)
        with split have "fs = ps @ f # post" by simp
        moreover from Cons pre have "\<forall>g \<in> set ps. truthy (get od g)" by simp
        ultimately show ?thesis using f by blast
      qed
    next
      assume "\<exists>pre post. fs = pre @ f # post \<and> (\<forall>g \<in> set pre. truthy (get od g)) \<and>
        \<not> truthy (get od f)"
      then obtain pre post where "fs = pre @ f # post"
        and "\<forall>g \<in> set pre. truthy (get od g)" and f: "\<not> truthy (get od f)"
        by blast
      with True have "a # fs = (a # pre) @ f # post \<and>
        (\<forall>g \<in> set (a # pre). truthy (get od g))"
        by simp
      with f show "\<exists>pre post. a # fs = pre @ f # post \<and>
        (\<forall>g \<in> set pre. truthy (get od g)) \<and> \<not> truthy (get od f)"
        by blast
    qed
    with True Cons.IH show ?thesis by simp
  qed
qed

text \<open>A write that goes through stores the document as written, with the commit
  time, under its identifier, and the document holds no \<^verbatim>\<open>undefined\<close>.\<close>

lemma store_set_Some:
  "store_set e docId doc docs = Some docs' \<longleftrightarrow>
     \<not> has_undefined doc \<and> store_accepts e docId doc \<and>
     docs' = docs(docId \<mapsto> \<lparr> written = doc, committed = commit_time e \<rparr>)"
  by (auto simp: store_set_def)

text \<open>Every handler leaves the store as it is when it answers an error.\<close>

lemma persist_revised_error:
  "fst (persist_revised e fresh od docs) = Inl err \<Longrightarrow>
   snd (persist_revised e fresh od docs) = docs"
  by (auto simp: persist_revised_def Let_def split: option.splits)

lemma verify_revised_error:
  "fst (verify_revised e fresh od docs) = Inl err \<Longrightarrow>
   snd (verify_revised e fresh od docs) = docs"
  using persist_revised_error [of e fresh od docs err]
  by (auto simp: verify_revised_def reconcile_revised_def Let_def split: option.splits)

lemma save_order_revised_error:
  "fst (save_order_revised e fresh req docs) = Inl err \<Longrightarrow>
   snd (save_order_revised e fresh req docs) = docs"
  using verify_revised_error [of e fresh "get (body req) ''orderData''" docs err]
  by (auto simp: save_order_revised_def Let_def split: option.splits)

lemma save_order_dropin_error:
  "fst (save_order_dropin e fresh req docs) = Inl err \<Longrightarrow>
   snd (save_order_dropin e fresh req docs) = docs"
  by (auto simp: save_order_dropin_def save_order_handler_dropin_def Let_def
      split: option.splits)

subsection \<open>Signature verification\<close>

lemma dropin_route_rejects_iff:
  assumes "get (body req) ''orderData'' = od" and "truthy od"
    and "verifyFirebaseToken e req = Some uid"
  shows "(save_order_dropin e fresh req docs = (Inl InvalidSignature, docs)) =
           (\<not> verifyRazorpaySignature e (get od ''order_id'') (get od ''payment_id'')
                 (get od ''signature''))"
    and "(fst (save_order_dropin e fresh req docs) = Inl InvalidSignature) =
           (\<not> verifyRazorpaySignature e (get od ''order_id'') (get od ''payment_id'')
                 (get od ''signature''))"
  using assms body_not_nullish [of req od]
  by (auto simp: save_order_dropin_def save_order_handler_dropin_def Let_def
      split: option.splits)

text \<open>
  C1 (as stated, refuted). In the payload gateway order id, payment id and signature are
  present and the signature is not the digest, yet the revised server does not answer
  \<open>InvalidSignature\<close>: the payload has no \<^verbatim>\<open>userId\<close>, and the required-field check,
  which comes first, answers \<open>MissingField userId\<close>.
\<close>

theorem forged_without_userId_counterexample:
  "truthy (get forged_scenario ''razorpay_order_id'') \<and>
   truthy (get forged_scenario ''razorpay_payment_id'') \<and>
   truthy (get forged_scenario ''razorpay_signature'') \<and>
   get forged_scenario ''razorpay_signature'' \<noteq>
     JStr (hmac_sha256_hex test_env (signing_key test_env) ''order_1|pay_1'') \<and>
   save_order_revised test_env ''auto'' (confirm_request None forged_scenario) Map.empty =
     (Inl (MissingField ''userId''), Map.empty)"
  by (simp add: revised_run test_run forged_scenario_def)

text \<open>
  C1 (amended). For every payload in which gateway order id and payment id are strings
  that are not empty and the signature is present, a request that gets as far as the
  signature check is answered \<open>InvalidSignature\<close> exactly when the signature is not the
  hex HMAC-SHA256 of order id, \<^verbatim>\<open>|\<close> and payment id under the signing key (the secret,
  or the empty string when the secret is not set).
  \<^item> Drop-in server (\<^verbatim>\<open>order_id\<close>, \<^verbatim>\<open>payment_id\<close>, \<^verbatim>\<open>signature\<close>): the request gets
    there when the token middleware lets it through; otherwise the answer is
    \<open>Unauthenticated\<close>.
  \<^item> Revised server (\<^verbatim>\<open>razorpay_order_id\<close>, \<^verbatim>\<open>razorpay_payment_id\<close>,
    \<^verbatim>\<open>razorpay_signature\<close>): the request gets there when \<^verbatim>\<open>userId\<close> and \<^verbatim>\<open>total\<close> are
    present too and it carries no verified token of another user; otherwise the answer
    is \<open>MissingField\<close> for \<^verbatim>\<open>userId\<close>, or for \<^verbatim>\<open>total\<close> when \<^verbatim>\<open>userId\<close> is
    present, or \<open>IdentityMismatch\<close>.
  On both servers every answer that is an error leaves the store unchanged.
\<close>

theorem signature_check_hmac:
  assumes od: "get (body req) ''orderData'' = od"
  shows
    "(\<forall>oid pid.
        get od ''order_id'' = JStr oid \<and> oid \<noteq> [] \<and>
        get od ''payment_id'' = JStr pid \<and> pid \<noteq> [] \<and> truthy (get od ''signature'') \<longrightarrow>
          (verifyFirebaseToken e req = None \<longrightarrow>
             save_order_dropin e fresh req docs = (Inl Unauthenticated, docs)) \<and>
          ((\<exists>uid. verifyFirebaseToken e req = Some uid) \<longrightarrow>
             (save_order_dropin e fresh req docs = (Inl InvalidSignature, docs)) =
               (get od ''signature'' \<noteq>
                  JStr (hmac_sha256_hex e (signing_key e) (oid @ ''|'' @ pid))) \<and>
             (fst (save_order_dropin e fresh req docs) = Inl InvalidSignature) =
               (get od ''signature'' \<noteq>
                  JStr (hmac_sha256_hex e (signing_key e) (oid @ ''|'' @ pid))))) \<and>
     (\<forall>oid pid.
        get od ''razorpay_order_id'' = JStr oid \<and> oid \<noteq> [] \<and>
        get od ''razorpay_payment_id'' = JStr pid \<and> pid \<noteq> [] \<and>
        truthy (get od ''razorpay_signature'') \<longrightarrow>
          (\<not> truthy (get od ''userId'') \<longrightarrow>
             save_order_revised e fresh req docs = (Inl (MissingField ''userId''), docs)) \<and>
          (truthy (get od ''userId'') \<and> \<not> truthy (get od ''total'') \<longrightarrow>
             save_order_revised e fresh req docs = (Inl (MissingField ''total''), docs)) \<and>
          (truthy (get od ''userId'') \<and> truthy (get od ''total'') \<and>
           (\<exists>u. verifyIdTokenFromRequest e req = Some u \<and> get od ''userId'' \<noteq> JStr u) \<longrightarrow>
             save_order_revised e fresh req docs = (Inl IdentityMismatch, docs)) \<and>
          (truthy (get od ''userId'') \<and> truthy (get od ''total'') \<and>
           (case verifyIdTokenFromRequest e req of
              Some u \<Rightarrow> get od ''userId'' = JStr u | None \<Rightarrow> True) \<longrightarrow>
             (save_order_revised e fresh req docs = (Inl InvalidSignature, docs)) =
               (get od ''razorpay_signature'' \<noteq>
                  JStr (hmac_sha256_hex e (signing_key e) (oid @ ''|'' @ pid))) \<and>
             (fst (save_order_revised e fresh req docs) = Inl InvalidSignature) =
               (get od ''razorpay_signature'' \<noteq>
                  JStr (hmac_sha256_hex e (signing_key e) (oid @ ''|'' @ pid))))) \<and>
     (\<forall>err. fst (save_order_dropin e fresh req docs) = Inl err \<longrightarrow>
        snd (save_order_dropin e fresh req docs) = docs) \<and>
     (\<forall>err. fst (save_order_revised e fresh req docs) = Inl err \<longrightarrow>
        snd (save_order_revised e fresh req docs) = docs)"
proof (intro conjI allI impI)
  fix oid pid
  assume ids: "get od ''order_id'' = JStr oid \<and> oid \<noteq> [] \<and>
    get od ''payment_id'' = JStr pid \<and> pid \<noteq> [] \<and> truthy (get od ''signature'')"
  let ?expected = "JStr (hmac_sha256_hex e (signing_key e) (oid @ ''|'' @ pid))"
  {
    assume "verifyFirebaseToken e req = None"
    then show "save_order_dropin e fresh req docs = (Inl Unauthenticated, docs)"
      by (simp add: save_order_dropin_def)
  }
  assume "\<exists>uid. verifyFirebaseToken e req = Some uid"
  then obtain uid where token: "verifyFirebaseToken e req = Some uid"
    by blast
  from ids have "truthy (get od ''order_id'')"
    by simp
  then have present: "truthy od"
    using truthy_get_props by blast
  have v: "verifyRazorpaySignature e (get od ''order_id'') (get od ''payment_id'')
      (get od ''signature'') = (get od ''signature'' = ?expected)"
    using ids by (simp add: verifyRazorpaySignature_present)
  show "(save_order_dropin e fresh req docs = (Inl InvalidSignature, docs)) =
      (get od ''signature'' \<noteq> ?expected)"
    using dropin_route_rejects_iff(1) [OF od present token, of fresh docs] v by simp
  show "(fst (save_order_dropin e fresh req docs) = Inl InvalidSignature) =
      (get od ''signature'' \<noteq> ?expected)"
    using dropin_route_rejects_iff(2) [OF od present token, of fresh docs] v by simp
next
  fix oid pid
  assume ids: "get od ''razorpay_order_id'' = JStr oid \<and> oid \<noteq> [] \<and>
    get od ''razorpay_payment_id'' = JStr pid \<and> pid \<noteq> [] \<and>
    truthy (get od ''razorpay_signature'')"
  let ?expected = "JStr (hmac_sha256_hex e (signing_key e) (oid @ ''|'' @ pid))"
  from ids have "truthy (get od ''razorpay_order_id'')"
    by simp
  then have object: "truthy od \<and> typeof od = ''object''"
    using truthy_get_props by blast
  {
    assume "\<not> truthy (get od ''userId'')"
    then have "missing_required od required = Some ''userId''"
      by (simp add: required_def)
    then show "save_order_revised e fresh req docs = (Inl (MissingField ''userId''), docs)"
      using revised_missing_field [OF od] object by blast
  }
  {
    assume "truthy (get od ''userId'') \<and> \<not> truthy (get od ''total'')"
    then have "missing_required od required = Some ''total''"
      by (simp add: required_def)
    then show "save_order_revised e fresh req docs = (Inl (MissingField ''total''), docs)"
      using revised_missing_field [OF od] object by blast
  }
  {
    assume h: "truthy (get od ''userId'') \<and> truthy (get od ''total'') \<and>
      (\<exists>u. verifyIdTokenFromRequest e req = Some u \<and> get od ''userId'' \<noteq> JStr u)"
    with ids have "missing_required od required = None"
      by (simp add: required_present)
    with h show "save_order_revised e fresh req docs = (Inl IdentityMismatch, docs)"
      using revised_identity_mismatch [OF od] by blast
  }
  assume h: "truthy (get od ''userId'') \<and> truthy (get od ''total'') \<and>
    (case verifyIdTokenFromRequest e req of
       Some u \<Rightarrow> get od ''userId'' = JStr u | None \<Rightarrow> True)"
  with ids have "missing_required od required = None"
    by (simp add: required_present)
  with h have step: "save_order_revised e fresh req docs = verify_revised e fresh od docs"
    using revised_reaches_verify [OF od] by blast
  show "(save_order_revised e fresh req docs = (Inl InvalidSignature, docs)) =
      (get od ''razorpay_signature'' \<noteq> ?expected)"
    using verify_revised_rejects_iff(1) [of e fresh od docs] ids by (simp add: step)
  show "(fst (save_order_revised e fresh req docs) = Inl InvalidSignature) =
      (get od ''razorpay_signature'' \<noteq> ?expected)"
    using verify_revised_rejects_iff(2) [of e fresh od docs] ids by (simp add: step)
next
  fix err
  assume "fst (save_order_dropin e fresh req docs) = Inl err"
  then show "snd (save_order_dropin e fresh req docs) = docs"
    by (rule save_order_dropin_error)
next
  fix err
  assume "fst (save_order_revised e fresh req docs) = Inl err"
  then show "snd (save_order_revised e fresh req docs) = docs"
    by (rule save_order_revised_error)
qed

theorem signature_check_hmac_witness:
  "save_order_dropin test_env ''auto''
     (u1_request (dropin_payload_with ''signature'' (JStr ''forged''))) Map.empty =
     (Inl InvalidSignature, Map.empty) \<and>
   fst (save_order_dropin test_env ''auto'' (u1_request dropin_payload) Map.empty) \<noteq>
     Inl InvalidSignature \<and>
   save_order_dropin test_env ''auto'' (confirm_request None dropin_payload) Map.empty =
     (Inl Unauthenticated, Map.empty) \<and>
   save_order_revised test_env ''auto''
     (confirm_request None (payload_with ''razorpay_signature'' (JStr ''forged''))) Map.empty =
     (Inl InvalidSignature, Map.empty) \<and>
   fst (save_order_revised test_env ''auto'' (confirm_request None payload_u1) Map.empty) \<noteq>
     Inl InvalidSignature \<and>
   save_order_revised test_env ''auto''
     (confirm_request (Some ''Bearer token-u2'')
        (payload_with ''razorpay_signature'' (JStr ''forged''))) Map.empty =
     (Inl IdentityMismatch, Map.empty)"
  using
    signature_check_hmac [of
      "u1_request (dropin_payload_with ''signature'' (JStr ''forged''))"
      "dropin_payload_with ''signature'' (JStr ''forged'')" test_env "''auto''" Map.empty]
    signature_check_hmac [of "u1_request dropin_payload" dropin_payload test_env "''auto''"
      Map.empty]
    signature_check_hmac [of "confirm_request None dropin_payload" dropin_payload test_env
      "''auto''" Map.empty]
    signature_check_hmac [of
      "confirm_request None (payload_with ''razorpay_signature'' (JStr ''forged''))"
      "payload_with ''razorpay_signature'' (JStr ''forged'')" test_env "''auto''" Map.empty]
    signature_check_hmac [of "confirm_request None payload_u1" payload_u1 test_env "''auto''"
      Map.empty]
    signature_check_hmac [of
      "confirm_request (Some ''Bearer token-u2'')
         (payload_with ''razorpay_signature'' (JStr ''forged''))"
      "payload_with ''razorpay_signature'' (JStr ''forged'')" test_env "''auto''" Map.empty]
  by (simp add: confirm_request_def u1_request_def dropin_payload_def dropin_payload_with_def
      dropin_fields_def payload_with_def payload_u1_def u1_fields_def without_def
      scenario_fields_def test_env_def stub_hmac_def signing_key_def
      verifyIdTokenFromRequest_def bearer_token_def verifyFirebaseToken_def trim_def
      is_space_def)

text \<open>
  C9. When \<^verbatim>\<open>RAZORPAY_KEY_SECRET\<close> is not set, nothing fails: the HMAC key is the empty
  string. A signature that is the digest of the identifiers under the empty key (a hex
  digest is never the empty string) passes \<^verbatim>\<open>verifyRazorpaySignature\<close>, and in the
  revised server a payload carrying it, once at the signature check, is not answered
  \<open>InvalidSignature\<close>.
\<close>

theorem empty_key_when_secret_absent:
  assumes secret: "RAZORPAY_KEY_SECRET e = None"
  shows
    "signing_key e = [] \<and>
     (truthy order_id \<and> truthy payment_id \<and>
      hmac_sha256_hex e [] (to_str order_id @ ''|'' @ to_str payment_id) \<noteq> [] \<longrightarrow>
        verifyRazorpaySignature e order_id payment_id
          (JStr (hmac_sha256_hex e [] (to_str order_id @ ''|'' @ to_str payment_id)))) \<and>
     expectedSignature e od =
       hmac_sha256_hex e []
         (to_str (get od ''razorpay_order_id'') @ ''|'' @ to_str (get od ''razorpay_payment_id'')) \<and>
     (get (body req) ''orderData'' = od \<and> missing_required od required = None \<and>
      (case verifyIdTokenFromRequest e req of
         Some u \<Rightarrow> get od ''userId'' = JStr u | None \<Rightarrow> True) \<and>
      get od ''razorpay_signature'' =
        JStr (hmac_sha256_hex e []
               (to_str (get od ''razorpay_order_id'') @ ''|'' @
                to_str (get od ''razorpay_payment_id''))) \<longrightarrow>
        fst (save_order_revised e fresh req docs) \<noteq> Inl InvalidSignature)"
proof (intro conjI impI)
  show key: "signing_key e = []"
    using secret by (simp add: signing_key_def)
  show "expectedSignature e od =
      hmac_sha256_hex e []
        (to_str (get od ''razorpay_order_id'') @ ''|'' @ to_str (get od ''razorpay_payment_id''))"
    by (simp add: expectedSignature_def key)
next
  assume "truthy order_id \<and> truthy payment_id \<and>
    hmac_sha256_hex e [] (to_str order_id @ ''|'' @ to_str payment_id) \<noteq> []"
  then show "verifyRazorpaySignature e order_id payment_id
      (JStr (hmac_sha256_hex e [] (to_str order_id @ ''|'' @ to_str payment_id)))"
    using secret by (simp add: verifyRazorpaySignature_def signing_key_def)
next
  assume h: "get (body req) ''orderData'' = od \<and> missing_required od required = None \<and>
    (case verifyIdTokenFromRequest e req of
       Some u \<Rightarrow> get od ''userId'' = JStr u | None \<Rightarrow> True) \<and>
    get od ''razorpay_signature'' =
      JStr (hmac_sha256_hex e []
             (to_str (get od ''razorpay_order_id'') @ ''|'' @
              to_str (get od ''razorpay_payment_id'')))"
  then have "save_order_revised e fresh req docs = verify_revised e fresh od docs"
    using revised_reaches_verify [of req od e fresh docs] by blast
  moreover have "signing_key e = []"
    using secret by (simp add: signing_key_def)
  ultimately show "fst (save_order_revised e fresh req docs) \<noteq> Inl InvalidSignature"
    using h verify_revised_rejects_iff(2) [of e fresh od docs] by simp
qed

theorem empty_key_when_secret_absent_witness:
  "verifyRazorpaySignature (test_env\<lparr>RAZORPAY_KEY_SECRET := None\<rparr>) (JStr ''order_1'')
     (JStr ''pay_1'') (JStr (stub_hmac [] ''order_1|pay_1'')) \<and>
   fst (save_order_revised (test_env\<lparr>RAZORPAY_KEY_SECRET := None\<rparr>) ''auto''
     (confirm_request None
        (payload_with ''razorpay_signature'' (JStr (stub_hmac [] ''order_1|pay_1''))))
     Map.empty) \<noteq> Inl InvalidSignature"
  using
    empty_key_when_secret_absent [of "test_env\<lparr>RAZORPAY_KEY_SECRET := None\<rparr>"
      "JStr ''order_1''" "JStr ''pay_1''"
      "payload_with ''razorpay_signature'' (JStr (stub_hmac [] ''order_1|pay_1''))"
      "confirm_request None
         (payload_with ''razorpay_signature'' (JStr (stub_hmac [] ''order_1|pay_1'')))"
      "''auto''" Map.empty]
  by (simp add: confirm_request_def payload_with_def u1_fields_def without_def
      scenario_fields_def test_env_def stub_hmac_def required_def
      verifyIdTokenFromRequest_def bearer_token_def)

subsection \<open>Required fields\<close>

text \<open>
  C10. The required-field check of the revised server tests truthiness. For every payload
  (a JSON object) in which one of \<^verbatim>\<open>userId\<close>, \<^verbatim>\<open>total\<close>, \<^verbatim>\<open>razorpay_payment_id\<close>,
  \<^verbatim>\<open>razorpay_order_id\<close>, \<^verbatim>\<open>razorpay_signature\<close> is falsy, the answer is \<open>MissingField\<close>
  for a falsy field, the store unchanged, whatever the secret, the digest, the identity
  provider and the gateway are: nothing of the later steps has run. In particular
  \<^verbatim>\<open>userId\<close> equal to the empty string is answered \<open>MissingField userId\<close>, and the
  integer total 0 (with a \<^verbatim>\<open>userId\<close>) is answered \<open>MissingField total\<close>.
\<close>

theorem required_fields_by_truthiness:
  assumes od: "get (body req) ''orderData'' = od"
    and obj: "truthy od \<and> typeof od = ''object''"
  shows
    "((\<exists>f \<in> set required. \<not> truthy (get od f)) \<longrightarrow>
        (\<exists>f \<in> set required. \<not> truthy (get od f) \<and>
           (\<forall>e fresh. save_order_revised e fresh req docs = (Inl (MissingField f), docs)))) \<and>
     (get od ''userId'' = JStr [] \<longrightarrow>
        (\<forall>e fresh. save_order_revised e fresh req docs = (Inl (MissingField ''userId''), docs))) \<and>
     (truthy (get od ''userId'') \<and> get od ''total'' = JNum (Fin 0) \<longrightarrow>
        (\<forall>e fresh. save_order_revised e fresh req docs = (Inl (MissingField ''total''), docs)))"
proof (intro conjI impI)
  assume "\<exists>f \<in> set required. \<not> truthy (get od f)"
  then have "missing_required od required \<noteq> None"
    by (simp add: missing_required_None)
  then obtain f where f: "missing_required od required = Some f"
    by blast
  then have "f \<in> set required \<and> \<not> truthy (get od f)"
    by (rule missing_required_Some)
  moreover have "\<forall>e fresh. save_order_revised e fresh req docs = (Inl (MissingField f), docs)"
    using revised_missing_field [OF od _ _ f] obj by blast
  ultimately show "\<exists>f \<in> set required. \<not> truthy (get od f) \<and>
      (\<forall>e fresh. save_order_revised e fresh req docs = (Inl (MissingField f), docs))"
    by blast
next
  assume "get od ''userId'' = JStr []"
  then have "missing_required od required = Some ''userId''"
    by (simp add: required_def)
  then show "\<forall>e fresh. save_order_revised e fresh req docs =
      (Inl (MissingField ''userId''), docs)"
    using revised_missing_field [OF od] obj by blast
next
  assume "truthy (get od ''userId'') \<and> get od ''total'' = JNum (Fin 0)"
  then have "missing_required od required = Some ''total''"
    by (simp add: required_def)
  then show "\<forall>e fresh. save_order_revised e fresh req docs =
      (Inl (MissingField ''total''), docs)"
    using revised_missing_field [OF od] obj by blast
qed

theorem required_fields_by_truthiness_witness:
  "save_order_revised test_env ''auto''
     (confirm_request None (payload_with ''total'' (JNum (Fin 0)))) Map.empty =
     (Inl (MissingField ''total''), Map.empty) \<and>
   save_order_revised test_env ''auto''
     (confirm_request None (payload_with ''userId'' (JStr []))) Map.empty =
     (Inl (MissingField ''userId''), Map.empty) \<and>
   (\<exists>f \<in> set required.
      save_order_revised test_env ''auto''
        (confirm_request None (payload_with ''razorpay_payment_id'' JNull)) Map.empty =
        (Inl (MissingField f), Map.empty))"
  using
    required_fields_by_truthiness [of
      "confirm_request None (payload_with ''total'' (JNum (Fin 0)))"
      "payload_with ''total'' (JNum (Fin 0))" Map.empty]
    required_fields_by_truthiness [of
      "confirm_request None (payload_with ''userId'' (JStr []))"
      "payload_with ''userId'' (JStr [])" Map.empty]
    required_fields_by_truthiness [of
      "confirm_request None (payload_with ''razorpay_payment_id'' JNull)"
      "payload_with ''razorpay_payment_id'' JNull" Map.empty]
  by (simp add: confirm_request_def payload_with_def u1_fields_def without_def
      scenario_fields_def required_def stub_hmac_def)

text \<open>
  C7 (as stated, refuted). The revised server answers a payload without a signature with
  \<open>MissingField\<close>, an error of its own, not with \<open>InvalidSignature\<close>.
\<close>

theorem missing_signature_counterexample:
  "save_order_revised test_env ''auto''
     (confirm_request None (payload_without ''razorpay_signature'')) Map.empty =
     (Inl (MissingField ''razorpay_signature''), Map.empty) \<and>
   fst (save_order_revised test_env ''auto''
     (confirm_request None (payload_without ''razorpay_signature'')) Map.empty) \<noteq>
     Inl InvalidSignature"
  by (simp add: save_order_revised_def confirm_request_def payload_without_def u1_fields_def
      without_def scenario_fields_def required_def)

text \<open>
  C7 (amended). For every payload without at least one of gateway order id, payment id
  or signature (the field is absent or falsy), the order is refused and the store is
  unchanged.
  \<^item> Drop-in server: a request that the token middleware lets through is answered
    \<open>InvalidSignature\<close>, the answer such a request gets whenever the signature check
    fails, so a missing field is refused exactly as a signature that does not match.
  \<^item> Revised server: when the payload is an object the answer is \<open>MissingField\<close> for
    the first falsy field in the order \<^verbatim>\<open>userId\<close>, \<^verbatim>\<open>total\<close>, \<^verbatim>\<open>razorpay_payment_id\<close>,
    \<^verbatim>\<open>razorpay_order_id\<close>, \<^verbatim>\<open>razorpay_signature\<close>, an error of its own, whatever the
    secret, the gateway, the identity provider and the store are.
\<close>

theorem missing_gateway_field_rejected:
  assumes od: "get (body req) ''orderData'' = od"
  shows
    "(truthy od \<and> (\<exists>uid. verifyFirebaseToken e req = Some uid) \<longrightarrow>
        (\<not> truthy (get od ''order_id'') \<or> \<not> truthy (get od ''payment_id'') \<or>
         \<not> truthy (get od ''signature'') \<longrightarrow>
           save_order_dropin e fresh req docs = (Inl InvalidSignature, docs)) \<and>
        (\<not> verifyRazorpaySignature e (get od ''order_id'') (get od ''payment_id'')
             (get od ''signature'') \<longrightarrow>
           save_order_dropin e fresh req docs = (Inl InvalidSignature, docs))) \<and>
     (truthy od \<and> typeof od = ''object'' \<and>
      (\<not> truthy (get od ''razorpay_order_id'') \<or> \<not> truthy (get od ''razorpay_payment_id'') \<or>
       \<not> truthy (get od ''razorpay_signature'')) \<longrightarrow>
        (\<exists>pre f post.
           required = pre @ f # post \<and> (\<forall>g \<in> set pre. truthy (get od g)) \<and>
           \<not> truthy (get od f) \<and>
           (\<forall>e' fresh'.
              save_order_revised e' fresh' req docs = (Inl (MissingField f), docs))))"
proof (intro conjI impI)
  assume h: "truthy od \<and> (\<exists>uid. verifyFirebaseToken e req = Some uid)"
  then obtain uid where token: "verifyFirebaseToken e req = Some uid"
    by blast
  from h have present: "truthy od"
    by simp
  have rejected: "save_order_dropin e fresh req docs = (Inl InvalidSignature, docs)"
    if "\<not> verifyRazorpaySignature e (get od ''order_id'') (get od ''payment_id'')
          (get od ''signature'')"
    using that od present token body_not_nullish [of req od]
    by (simp add: save_order_dropin_def save_order_handler_dropin_def Let_def)
  {
    assume "\<not> truthy (get od ''order_id'') \<or> \<not> truthy (get od ''payment_id'') \<or>
      \<not> truthy (get od ''signature'')"
    then have "\<not> verifyRazorpaySignature e (get od ''order_id'') (get od ''payment_id'')
        (get od ''signature'')"
      by (auto simp: verifyRazorpaySignature_def)
    then show "save_order_dropin e fresh req docs = (Inl InvalidSignature, docs)"
      by (rule rejected)
  }
  assume "\<not> verifyRazorpaySignature e (get od ''order_id'') (get od ''payment_id'')
      (get od ''signature'')"
  then show "save_order_dropin e fresh req docs = (Inl InvalidSignature, docs)"
    by (rule rejected)
next
  assume h: "truthy od \<and> typeof od = ''object'' \<and>
    (\<not> truthy (get od ''razorpay_order_id'') \<or> \<not> truthy (get od ''razorpay_payment_id'') \<or>
     \<not> truthy (get od ''razorpay_signature''))"
  then have "missing_required od required \<noteq> None"
    by (auto simp: missing_required_None required_def)
  then obtain f where f: "missing_required od required = Some f"
    by blast
  then obtain pre post where split: "required = pre @ f # post"
    and pre: "\<forall>g \<in> set pre. truthy (get od g)" and falsy: "\<not> truthy (get od f)"
    using missing_required_first [of od required f] by blast
  have "save_order_revised e' fresh' req docs = (Inl (MissingField f), docs)" for e' fresh'
    using revised_missing_field [OF od, of f e' fresh' docs] h f by blast
  with split pre falsy
  show "\<exists>pre f post.
      required = pre @ f # post \<and> (\<forall>g \<in> set pre. truthy (get od g)) \<and>
      \<not> truthy (get od f) \<and>
      (\<forall>e' fresh'. save_order_revised e' fresh' req docs = (Inl (MissingField f), docs))"
    by blast
qed

theorem missing_gateway_field_rejected_witness:
  "save_order_dropin test_env ''auto'' (u1_request (dropin_payload_without ''signature''))
     Map.empty = (Inl InvalidSignature, Map.empty) \<and>
   save_order_dropin test_env ''auto''
     (u1_request (dropin_payload_with ''signature'' (JStr ''forged''))) Map.empty =
     (Inl InvalidSignature, Map.empty) \<and>
   (\<exists>pre f post.
      required = pre @ f # post \<and>
      (\<forall>g \<in> set pre. truthy (get (payload_without ''razorpay_order_id'') g)) \<and>
      \<not> truthy (get (payload_without ''razorpay_order_id'') f) \<and>
      (\<forall>e' fresh'.
         save_order_revised e' fresh'
           (confirm_request None (payload_without ''razorpay_order_id'')) Map.empty =
           (Inl (MissingField f), Map.empty)))"
  using
    missing_gateway_field_rejected [of "u1_request (dropin_payload_without ''signature'')"
      "dropin_payload_without ''signature''" test_env "''auto''" Map.empty]
    missing_gateway_field_rejected [of
      "u1_request (dropin_payload_with ''signature'' (JStr ''forged''))"
      "dropin_payload_with ''signature'' (JStr ''forged'')" test_env "''auto''" Map.empty]
    missing_gateway_field_rejected [of
      "confirm_request None (payload_without ''razorpay_order_id'')"
      "payload_without ''razorpay_order_id''" test_env "''auto''" Map.empty]
  by (simp add: confirm_request_def u1_request_def dropin_payload_without_def
      dropin_payload_with_def dropin_fields_def payload_without_def u1_fields_def without_def
      scenario_fields_def test_env_def stub_hmac_def signing_key_def
      verifyFirebaseToken_def verifyRazorpaySignature_def isNonEmptyString_def
      trim_def is_space_def)

subsection \<open>Identity\<close>

text \<open>
  C8 (as stated, refuted). A request with a verified token of user \<^verbatim>\<open>u2\<close> and a payload
  that claims \<^verbatim>\<open>u1\<close> but has no \<^verbatim>\<open>total\<close> is answered \<open>MissingField\<close>, not
  \<open>IdentityMismatch\<close>: the required-field check comes first.
\<close>

theorem identity_mismatch_counterexample:
  "verifyIdTokenFromRequest test_env
     (confirm_request (Some ''Bearer token-u2'') (payload_without ''total'')) = Some ''u2'' \<and>
   get (payload_without ''total'') ''userId'' = JStr ''u1'' \<and>
   save_order_revised test_env ''auto''
     (confirm_request (Some ''Bearer token-u2'') (payload_without ''total'')) Map.empty =
     (Inl (MissingField ''total''), Map.empty)"
  by (simp add: save_order_revised_def confirm_request_def payload_without_def u1_fields_def
      without_def scenario_fields_def required_def verifyIdTokenFromRequest_def
      bearer_token_def test_env_def)

text \<open>
  C8 (amended). For every request whose payload has all required fields: if the request
  carries a bearer token that the identity provider verifies and the verified \<^verbatim>\<open>uid\<close>
  is not the payload's \<^verbatim>\<open>userId\<close>, the answer is \<open>IdentityMismatch\<close> and the store is
  unchanged; if it carries no valid token (no header, no bearer token in it, or a
  token the provider rejects), the request goes on to the signature check and is
  answered neither \<open>IdentityMismatch\<close> nor \<open>Unauthenticated\<close>.
\<close>

theorem identity_binding:
  assumes od: "get (body req) ''orderData'' = od"
    and fields: "missing_required od required = None"
  shows
    "(\<forall>uid. verifyIdTokenFromRequest e req = Some uid \<and> get od ''userId'' \<noteq> JStr uid \<longrightarrow>
        save_order_revised e fresh req docs = (Inl IdentityMismatch, docs)) \<and>
     (verifyIdTokenFromRequest e req = None \<longrightarrow>
        save_order_revised e fresh req docs = verify_revised e fresh od docs \<and>
        fst (save_order_revised e fresh req docs) \<noteq> Inl IdentityMismatch \<and>
        fst (save_order_revised e fresh req docs) \<noteq> Inl Unauthenticated) \<and>
     (verifyIdTokenFromRequest e req = None \<longleftrightarrow>
        (case authorization req of
           None \<Rightarrow> True
         | Some h \<Rightarrow> (case bearer_token h of None \<Rightarrow> True | Some t \<Rightarrow> verifyIdToken e t = None)))"
proof (intro conjI impI allI)
  fix uid
  assume "verifyIdTokenFromRequest e req = Some uid \<and> get od ''userId'' \<noteq> JStr uid"
  then show "save_order_revised e fresh req docs = (Inl IdentityMismatch, docs)"
    using revised_identity_mismatch [OF od fields] by blast
next
  assume none: "verifyIdTokenFromRequest e req = None"
  then show step: "save_order_revised e fresh req docs = verify_revised e fresh od docs"
    using revised_reaches_verify [OF od fields, of e fresh docs] by simp
  show "fst (save_order_revised e fresh req docs) \<noteq> Inl IdentityMismatch"
    using verify_revised_not_identity [of e fresh od docs] by (simp add: step)
  show "fst (save_order_revised e fresh req docs) \<noteq> Inl Unauthenticated"
    using verify_revised_not_identity [of e fresh od docs] by (simp add: step)
next
  show "verifyIdTokenFromRequest e req = None \<longleftrightarrow>
      (case authorization req of
         None \<Rightarrow> True
       | Some h \<Rightarrow> (case bearer_token h of None \<Rightarrow> True | Some t \<Rightarrow> verifyIdToken e t = None))"
    by (simp add: verifyIdTokenFromRequest_def bearer_token_def Let_def split: option.splits)
qed

theorem identity_binding_witness:
  "save_order_revised test_env ''auto''
     (confirm_request (Some ''Bearer token-u2'') payload_u1) Map.empty =
     (Inl IdentityMismatch, Map.empty) \<and>
   save_order_revised test_env ''auto'' (confirm_request None payload_u1) Map.empty =
     verify_revised test_env ''auto'' payload_u1 Map.empty \<and>
   save_order_revised test_env ''auto''
     (confirm_request (Some ''Bearer expired'') payload_u1) Map.empty =
     verify_revised test_env ''auto'' payload_u1 Map.empty"
  using
    identity_binding [of "confirm_request (Some ''Bearer token-u2'') payload_u1" payload_u1
      test_env "''auto''" Map.empty]
    identity_binding [of "confirm_request None payload_u1" payload_u1 test_env "''auto''"
      Map.empty]
    identity_binding [of "confirm_request (Some ''Bearer expired'') payload_u1" payload_u1
      test_env "''auto''" Map.empty]
  by (simp add: confirm_request_def payload_u1_def u1_fields_def scenario_fields_def
      required_def stub_hmac_def verifyIdTokenFromRequest_def bearer_token_def test_env_def)

subsection \<open>Amount reconciliation\<close>

lemma reconcile_revised_cases:
  "reconcile_revised e fresh od docs =
     (case orders_fetch e (get od ''razorpay_order_id'') of
        None \<Rightarrow> (Inl GatewayVerificationFailed, docs)
      | Some go \<Rightarrow>
          if nullish go then (Inl GatewayVerificationFailed, docs)
          else if num_neq (to_number (get go ''amount'')) (to_number (get od ''total''))
          then (Inl AmountMismatch, docs)
          else persist_revised e fresh od docs)"
  by (simp add: reconcile_revised_def Let_def split: option.splits)

lemma revised_reaches_reconcile:
  assumes "get (body req) ''orderData'' = od" and "missing_required od required = None"
    and "case verifyIdTokenFromRequest e req of
           Some u \<Rightarrow> get od ''userId'' = JStr u | None \<Rightarrow> True"
    and "get od ''razorpay_signature'' = JStr (expectedSignature e od)"
  shows "save_order_revised e fresh req docs = reconcile_revised e fresh od docs"
  using revised_reaches_verify [OF assms(1-3), of fresh docs] assms(4)
  by (simp add: verify_revised_def)

text \<open>
  C2. Revised server, for every payload that passes signature verification: all required
  fields are present, the request carries no verified token of another user, the two
  gateway identifiers are strings and the signature is the digest of order id, \<^verbatim>\<open>|\<close> and
  payment id. The client's total is an integer number \<open>t\<close>. Then the gateway order is
  fetched by \<^verbatim>\<open>razorpay_order_id\<close>, and
  \<^item> when the fetch fails, or returns nothing to read an amount from, the answer is
    \<open>GatewayVerificationFailed\<close> and the store is unchanged;
  \<^item> when the gateway order has the integer amount \<open>a\<close>, the answer is \<open>AmountMismatch\<close>
    exactly when \<open>a \<noteq> t\<close>, and then the store is unchanged; when \<open>a = t\<close> the handler
    goes on to compose and save the document, and answers neither of the two errors.
\<close>

theorem amount_reconciliation:
  assumes od: "get (body req) ''orderData'' = od"
    and fields: "missing_required od required = None"
    and identity: "case verifyIdTokenFromRequest e req of
                     Some u \<Rightarrow> get od ''userId'' = JStr u | None \<Rightarrow> True"
    and order_id: "get od ''razorpay_order_id'' = JStr oid"
    and payment_id: "get od ''razorpay_payment_id'' = JStr pid"
    and signature: "get od ''razorpay_signature'' =
                      JStr (hmac_sha256_hex e (signing_key e) (oid @ ''|'' @ pid))"
    and total: "get od ''total'' = JNum (Fin t)"
  shows
    "(orders_fetch e (JStr oid) = None \<longrightarrow>
        save_order_revised e fresh req docs = (Inl GatewayVerificationFailed, docs)) \<and>
     (\<forall>go. orders_fetch e (JStr oid) = Some go \<and> nullish go \<longrightarrow>
        save_order_revised e fresh req docs = (Inl GatewayVerificationFailed, docs)) \<and>
     (\<forall>go a. orders_fetch e (JStr oid) = Some go \<and> get go ''amount'' = JNum (Fin a) \<longrightarrow>
        (a \<noteq> t \<longrightarrow> save_order_revised e fresh req docs = (Inl AmountMismatch, docs)) \<and>
        (fst (save_order_revised e fresh req docs) = Inl AmountMismatch) = (a \<noteq> t) \<and>
        (a = t \<longrightarrow>
           save_order_revised e fresh req docs = persist_revised e fresh od docs \<and>
           fst (save_order_revised e fresh req docs) \<noteq> Inl GatewayVerificationFailed))"
proof -
  have "get od ''razorpay_signature'' = JStr (expectedSignature e od)"
    using order_id payment_id signature by (simp add: expectedSignature_def)
  with od fields identity
  have step: "save_order_revised e fresh req docs = reconcile_revised e fresh od docs"
    by (rule revised_reaches_reconcile)
  note cases = reconcile_revised_cases [of e fresh od docs]
  note persist = persist_revised_not_rejected [of e fresh od docs]
  have failed: "orders_fetch e (JStr oid) = None \<longrightarrow>
      save_order_revised e fresh req docs = (Inl GatewayVerificationFailed, docs)"
    using cases order_id by (simp add: step)
  have empty: "\<forall>go. orders_fetch e (JStr oid) = Some go \<and> nullish go \<longrightarrow>
      save_order_revised e fresh req docs = (Inl GatewayVerificationFailed, docs)"
    using cases order_id by (simp add: step)
  have amounts: "\<forall>go a. orders_fetch e (JStr oid) = Some go \<and>
        get go ''amount'' = JNum (Fin a) \<longrightarrow>
      (a \<noteq> t \<longrightarrow> save_order_revised e fresh req docs = (Inl AmountMismatch, docs)) \<and>
      (fst (save_order_revised e fresh req docs) = Inl AmountMismatch) = (a \<noteq> t) \<and>
      (a = t \<longrightarrow>
         save_order_revised e fresh req docs = persist_revised e fresh od docs \<and>
         fst (save_order_revised e fresh req docs) \<noteq> Inl GatewayVerificationFailed)"
  proof (intro allI impI)
    fix go a
    assume h: "orders_fetch e (JStr oid) = Some go \<and> get go ''amount'' = JNum (Fin a)"
    then have "\<not> nullish go"
      by (cases go) simp_all
    with h have run: "save_order_revised e fresh req docs =
        (if a \<noteq> t then (Inl AmountMismatch, docs) else persist_revised e fresh od docs)"
      using cases order_id total by (simp add: step)
    show "(a \<noteq> t \<longrightarrow> save_order_revised e fresh req docs = (Inl AmountMismatch, docs)) \<and>
        (fst (save_order_revised e fresh req docs) = Inl AmountMismatch) = (a \<noteq> t) \<and>
        (a = t \<longrightarrow>
           save_order_revised e fresh req docs = persist_revised e fresh od docs \<and>
           fst (save_order_revised e fresh req docs) \<noteq> Inl GatewayVerificationFailed)"
    proof (cases "a = t")
      case True
      with run persist show ?thesis
        by simp
    next
      case False
      with run show ?thesis
        by simp
    qed
  qed
  from failed empty amounts show ?thesis
    by (intro conjI)
qed

theorem amount_reconciliation_witness:
  "save_order_revised test_env ''auto''
     (confirm_request None (payload_with ''total'' (JNum (Fin 9999)))) Map.empty =
     (Inl AmountMismatch, Map.empty) \<and>
   save_order_revised test_env ''auto'' (confirm_request None payload_u1) Map.empty =
     persist_revised test_env ''auto'' payload_u1 Map.empty \<and>
   save_order_revised (test_env\<lparr>orders_fetch := (\<lambda>i. None)\<rparr>) ''auto''
     (confirm_request None payload_u1) Map.empty =
     (Inl GatewayVerificationFailed, Map.empty)"
  using
    amount_reconciliation [of "confirm_request None (payload_with ''total'' (JNum (Fin 9999)))"
      "payload_with ''total'' (JNum (Fin 9999))" test_env "''order_1''" "''pay_1''" 9999
      "''auto''" Map.empty]
    amount_reconciliation [of "confirm_request None payload_u1" payload_u1 test_env
      "''order_1''" "''pay_1''" 10000 "''auto''" Map.empty]
    amount_reconciliation [of "confirm_request None payload_u1" payload_u1
      "test_env\<lparr>orders_fetch := (\<lambda>i. None)\<rparr>" "''order_1''" "''pay_1''" 10000 "''auto''"
      Map.empty]
  by (simp add: confirm_request_def payload_with_def payload_u1_def u1_fields_def without_def
      scenario_fields_def required_def stub_hmac_def verifyIdTokenFromRequest_def
      bearer_token_def test_env_def test_order_def signing_key_def)

subsection \<open>Document identifier and persistence\<close>

lemma finalDocId_precedence:
  "finalDocId fresh od =
     (let order_id = get od ''order_id''; razorpay_order_id = get od ''razorpay_order_id'' in
      if truthy order_id \<and> trim (to_str order_id) \<noteq> [] then trim (to_str order_id)
      else if truthy razorpay_order_id \<and> trim (to_str razorpay_order_id) \<noteq> []
      then trim (to_str razorpay_order_id)
      else fresh)"
  by (simp add: finalDocId_def candidateId_def js_or_def js_and_def Let_def)

lemma docId_dropin_precedence:
  "docId_dropin fresh od =
     (if typeof (get od ''order_id'') = ''string'' \<and> trim (to_str (get od ''order_id'')) \<noteq> []
      then to_str (get od ''order_id'')
      else if typeof (get od ''payment_id'') = ''string'' \<and>
              trim (to_str (get od ''payment_id'')) \<noteq> []
      then to_str (get od ''payment_id'')
      else fresh)"
  by (simp add: docId_dropin_def isNonEmptyString_def Let_def)

lemma formattedOrder_revised_fields:
  assumes "formattedOrder_revised docId od = Some doc"
  shows "get doc ''orderId'' = JStr docId"
    and "get doc ''totalAmount'' = number_or_zero (get od ''total'')"
    and "get doc ''paymentStatus'' = js_or (get od ''status'') (JStr ''Paid'')"
  using assms
  by (auto simp: formattedOrder_revised_def Let_def split: option.splits)

text \<open>What an accepted request has gone through, on each server.\<close>

lemma revised_success:
  assumes "get (body req) ''orderData'' = od"
    and "save_order_revised e fresh req docs = (Inr resp, docs')"
  shows "\<exists>doc. formattedOrder_revised (finalDocId fresh od) od = Some doc \<and>
      \<not> has_undefined doc \<and> store_accepts e (finalDocId fresh od) doc \<and>
      resp = JObj [(''success'', JBool True), (''id'', JStr (finalDocId fresh od))] \<and>
      docs' = docs(finalDocId fresh od \<mapsto> \<lparr> written = doc, committed = commit_time e \<rparr>)"
  using assms
  by (auto simp: save_order_revised_def verify_revised_def reconcile_revised_def
      persist_revised_def store_set_def Let_def split: if_splits option.splits)

lemma revised_success_checks:
  assumes "get (body req) ''orderData'' = od"
    and "save_order_revised e fresh req docs = (Inr resp, docs')"
  shows "\<not> nullish (body req)" and "truthy od" and "typeof od = ''object''"
    and "missing_required od required = None"
    and "case verifyIdTokenFromRequest e req of
           Some u \<Rightarrow> get od ''userId'' = JStr u | None \<Rightarrow> True"
    and "get od ''razorpay_signature'' = JStr (expectedSignature e od)"
    and "\<exists>go. orders_fetch e (get od ''razorpay_order_id'') = Some go \<and> \<not> nullish go \<and>
           \<not> num_neq (to_number (get go ''amount'')) (to_number (get od ''total''))"
  using assms
  by (auto simp: save_order_revised_def verify_revised_def reconcile_revised_def Let_def
      split: if_splits option.splits)

lemma dropin_success:
  assumes "get (body req) ''orderData'' = od"
    and "save_order_dropin e fresh req docs = (Inr resp, docs')"
  shows "\<exists>uid doc. verifyFirebaseToken e req = Some uid \<and>
      formattedOrder_dropin uid od = Some doc \<and>
      \<not> has_undefined doc \<and> store_accepts e (docId_dropin fresh od) doc \<and>
      resp = JObj [(''success'', JBool True), (''id'', JStr (docId_dropin fresh od))] \<and>
      docs' = docs(docId_dropin fresh od \<mapsto> \<lparr> written = doc, committed = commit_time e \<rparr>)"
  using assms
  by (auto simp: save_order_dropin_def save_order_handler_dropin_def store_set_def Let_def
      split: if_splits option.splits)

lemma dropin_success_checks:
  assumes "get (body req) ''orderData'' = od"
    and "save_order_dropin e fresh req docs = (Inr resp, docs')"
  shows "\<not> nullish (body req)" and "truthy od"
    and "verifyRazorpaySignature e (get od ''order_id'') (get od ''payment_id'')
           (get od ''signature'')"
  using assms
  by (auto simp: save_order_dropin_def save_order_handler_dropin_def Let_def
      split: if_splits option.splits)



text \<open>A request that has been accepted passes the checks again, whatever the commit
  time, the generated identifier and the store of the later call are.\<close>

lemma revised_accepted_again:
  assumes "get (body req) ''orderData'' = od"
    and "save_order_revised e fresh req docs = (Inr resp, docs')"
  shows "save_order_revised (e\<lparr>commit_time := t\<rparr>) fresh2 req docs2 =
    persist_revised (e\<lparr>commit_time := t\<rparr>) fresh2 od docs2"
  using assms
  by (auto simp: save_order_revised_def verify_revised_def reconcile_revised_def Let_def
      expectedSignature_def signing_key_def verifyIdTokenFromRequest_def
      split: if_splits option.splits)

lemma dropin_accepted_again:
  assumes "get (body req) ''orderData'' = od"
    and "save_order_dropin e fresh req docs = (Inr resp, docs')"
    and "verifyFirebaseToken e req = Some uid"
    and "formattedOrder_dropin uid od = Some doc"
  shows "save_order_dropin (e\<lparr>commit_time := t\<rparr>) fresh2 req docs2 =
    (case store_set (e\<lparr>commit_time := t\<rparr>) (docId_dropin fresh2 od) doc docs2 of
       None \<Rightarrow> (Inl PersistenceFailure, docs2)
     | Some docs3 \<Rightarrow>
         (Inr (JObj [(''success'', JBool True), (''id'', JStr (docId_dropin fresh2 od))]),
          docs3))"
  using assms
  by (auto simp: save_order_dropin_def save_order_handler_dropin_def Let_def
      verifyFirebaseToken_def verifyRazorpaySignature_def signing_key_def
      split: if_splits option.splits)

text \<open>
  C4 (as stated, refuted). The drop-in server does not trim the identifier it writes
  under, and its second candidate is \<^verbatim>\<open>payment_id\<close>. The payload whose \<^verbatim>\<open>order_id\<close> is
  \<^verbatim>\<open>order_1\<close> between two spaces is accepted and written under that string, spaces
  included; the payload whose \<^verbatim>\<open>order_id\<close> is blank is written under its
  \<^verbatim>\<open>payment_id\<close>.
\<close>

theorem dropin_identifier_counterexample:
  "save_order_dropin test_env ''auto'' (u1_request (signed_dropin '' order_1 '' ''pay_1''))
     Map.empty =
     (Inr (JObj [(''success'', JBool True), (''id'', JStr '' order_1 '')]),
      snd (save_order_dropin test_env ''auto''
             (u1_request (signed_dropin '' order_1 '' ''pay_1'')) Map.empty)) \<and>
   dom (snd (save_order_dropin test_env ''auto''
               (u1_request (signed_dropin '' order_1 '' ''pay_1'')) Map.empty)) =
     {'' order_1 ''} \<and>
   trim '' order_1 '' = ''order_1'' \<and>
   fst (save_order_dropin test_env ''auto'' (u1_request (signed_dropin ''  '' ''pay_1''))
          Map.empty) =
     Inr (JObj [(''success'', JBool True), (''id'', JStr ''pay_1'')])"
  by (simp add: dropin_run test_run u1_request_def signed_dropin_def prod_eq_iff)

text \<open>
  C4 (amended). For every successful Confirm whose identifiers are ASCII strings, the
  document identifier is chosen by precedence, server by server.
  \<^item> Revised server, \<^verbatim>\<open>razorpay_order_id\<close> an ASCII string and \<^verbatim>\<open>order_id\<close> an ASCII
    string, absent or falsy: the trimmed \<^verbatim>\<open>order_id\<close> if that is not empty, otherwise the
    trimmed \<^verbatim>\<open>razorpay_order_id\<close> if that is not empty, otherwise the identifier the
    store has generated. The written record carries the identifier as \<^verbatim>\<open>orderId\<close>.
  \<^item> Drop-in server, \<^verbatim>\<open>order_id\<close> and \<^verbatim>\<open>payment_id\<close> ASCII strings: \<^verbatim>\<open>order_id\<close> as it
    stands, not trimmed, if it is not blank, otherwise \<^verbatim>\<open>payment_id\<close> as it stands if it
    is not blank, otherwise the identifier the store has generated.
  On both servers the document is written under that identifier, no other document
  changes, and the response returns the identifier as \<^verbatim>\<open>id\<close>.

  On ASCII strings \<open>trim\<close> is \<^verbatim>\<open>String.prototype.trim\<close>: the white space of ECMAScript
  below code 128 is the six characters 9 to 13 and 32.
\<close>

theorem document_id_precedence:
  assumes od: "get (body req) ''orderData'' = od"
  shows
    "(\<forall>resp docs' oid rid.
        save_order_revised e fresh req docs = (Inr resp, docs') \<and>
        (get od ''order_id'' = JStr oid \<or> \<not> truthy (get od ''order_id'') \<and> oid = []) \<and>
        ascii oid \<and> get od ''razorpay_order_id'' = JStr rid \<and> ascii rid \<longrightarrow>
          (let docId = (if trim oid \<noteq> [] then trim oid
                        else if trim rid \<noteq> [] then trim rid else fresh)
           in resp = JObj [(''success'', JBool True), (''id'', JStr docId)] \<and>
              (\<exists>doc. docs' = docs(docId \<mapsto> \<lparr> written = doc, committed = commit_time e \<rparr>) \<and>
                     get doc ''orderId'' = JStr docId))) \<and>
     (\<forall>resp docs' oid pid.
        save_order_dropin e fresh req docs = (Inr resp, docs') \<and>
        get od ''order_id'' = JStr oid \<and> ascii oid \<and>
        get od ''payment_id'' = JStr pid \<and> ascii pid \<longrightarrow>
          (let docId = (if trim oid \<noteq> [] then oid else if trim pid \<noteq> [] then pid else fresh)
           in resp = JObj [(''success'', JBool True), (''id'', JStr docId)] \<and>
              (\<exists>doc. docs' = docs(docId \<mapsto> \<lparr> written = doc, committed = commit_time e \<rparr>))))"
proof (intro conjI allI impI)
  fix resp docs' oid rid
  assume h: "save_order_revised e fresh req docs = (Inr resp, docs') \<and>
    (get od ''order_id'' = JStr oid \<or> \<not> truthy (get od ''order_id'') \<and> oid = []) \<and>
    ascii oid \<and> get od ''razorpay_order_id'' = JStr rid \<and> ascii rid"
  let ?docId = "if trim oid \<noteq> [] then trim oid else if trim rid \<noteq> [] then trim rid else fresh"
  from h have rid: "get od ''razorpay_order_id'' = JStr rid"
    by simp
  from h have "get od ''order_id'' = JStr oid \<or> \<not> truthy (get od ''order_id'') \<and> oid = []"
    by simp
  then have id: "finalDocId fresh od = ?docId"
  proof
    assume "get od ''order_id'' = JStr oid"
    then show ?thesis
      using rid trim_nonempty [of oid] trim_nonempty [of rid]
      by (simp add: finalDocId_precedence Let_def)
  next
    assume "\<not> truthy (get od ''order_id'') \<and> oid = []"
    then show ?thesis
      using rid trim_nonempty [of rid] by (simp add: finalDocId_precedence Let_def trim_Nil)
  qed
  from h have success: "save_order_revised e fresh req docs = (Inr resp, docs')"
    by simp
  from revised_success [OF od success] obtain doc
    where doc: "formattedOrder_revised (finalDocId fresh od) od = Some doc"
      and resp: "resp = JObj [(''success'', JBool True), (''id'', JStr (finalDocId fresh od))]"
      and docs': "docs' = docs(finalDocId fresh od \<mapsto>
        \<lparr> written = doc, committed = commit_time e \<rparr>)"
    by blast
  from formattedOrder_revised_fields(1) [OF doc] resp docs'
  show "let docId = ?docId
     in resp = JObj [(''success'', JBool True), (''id'', JStr docId)] \<and>
        (\<exists>doc. docs' = docs(docId \<mapsto> \<lparr> written = doc, committed = commit_time e \<rparr>) \<and>
               get doc ''orderId'' = JStr docId)"
    unfolding Let_def id [symmetric] by blast
next
  fix resp docs' oid pid
  assume h: "save_order_dropin e fresh req docs = (Inr resp, docs') \<and>
    get od ''order_id'' = JStr oid \<and> ascii oid \<and>
    get od ''payment_id'' = JStr pid \<and> ascii pid"
  let ?docId = "if trim oid \<noteq> [] then oid else if trim pid \<noteq> [] then pid else fresh"
  from h have "get od ''order_id'' = JStr oid" and "get od ''payment_id'' = JStr pid"
    by simp_all
  then have id: "docId_dropin fresh od = ?docId"
    by (simp add: docId_dropin_precedence)
  from h have success: "save_order_dropin e fresh req docs = (Inr resp, docs')"
    by simp
  from dropin_success [OF od success] obtain doc
    where "resp = JObj [(''success'', JBool True), (''id'', JStr (docId_dropin fresh od))]"
      and "docs' = docs(docId_dropin fresh od \<mapsto>
        \<lparr> written = doc, committed = commit_time e \<rparr>)"
    by blast
  then show "let docId = ?docId
     in resp = JObj [(''success'', JBool True), (''id'', JStr docId)] \<and>
        (\<exists>doc. docs' = docs(docId \<mapsto> \<lparr> written = doc, committed = commit_time e \<rparr>))"
    unfolding Let_def id [symmetric] by blast
qed

theorem document_id_precedence_witness:
  "fst (save_order_revised test_env ''auto''
     (confirm_request None (payload_with ''order_id'' (JStr '' abc ''))) Map.empty) =
     Inr (JObj [(''success'', JBool True), (''id'', JStr ''abc'')]) \<and>
   (\<exists>doc. snd (save_order_revised test_env ''auto''
       (confirm_request None (payload_with ''order_id'' (JStr '' abc ''))) Map.empty) =
       [''abc'' \<mapsto> \<lparr> written = doc, committed = 1700000000000 \<rparr>] \<and>
       get doc ''orderId'' = JStr ''abc'') \<and>
   (\<exists>doc. snd (save_order_dropin test_env ''auto'' (u1_request (signed_dropin ''  '' ''pay_1''))
       Map.empty) = [''pay_1'' \<mapsto> \<lparr> written = doc, committed = 1700000000000 \<rparr>])"
proof -
  let ?payload = "payload_with ''order_id'' (JStr '' abc '')"
  let ?req = "confirm_request None ?payload"
  let ?run = "save_order_revised test_env ''auto'' ?req Map.empty"
  have answer: "fst ?run = Inr (JObj [(''success'', JBool True), (''id'', JStr ''abc'')])"
    by (simp add: revised_run test_run)
  then have run: "?run = (Inr (JObj [(''success'', JBool True), (''id'', JStr ''abc'')]), snd ?run)"
    by (simp add: prod_eq_iff)
  have payload: "get (body ?req) ''orderData'' = ?payload"
    by (simp add: confirm_request_def)
  have "get ?payload ''order_id'' = JStr '' abc '' \<and> ascii '' abc '' \<and>
      get ?payload ''razorpay_order_id'' = JStr ''order_1'' \<and> ascii ''order_1''"
    by (simp add: test_run ascii_def)
  with run have revised_hyps:
    "?run = (Inr (JObj [(''success'', JBool True), (''id'', JStr ''abc'')]), snd ?run) \<and>
     (get ?payload ''order_id'' = JStr '' abc '' \<or>
      \<not> truthy (get ?payload ''order_id'') \<and> '' abc '' = []) \<and>
     ascii '' abc '' \<and> get ?payload ''razorpay_order_id'' = JStr ''order_1'' \<and>
     ascii ''order_1''"
    by blast
  from document_id_precedence [OF payload, THEN conjunct1, rule_format, OF revised_hyps]
  have revised: "\<exists>doc. snd ?run = [''abc'' \<mapsto> \<lparr> written = doc, committed = 1700000000000 \<rparr>] \<and>
      get doc ''orderId'' = JStr ''abc''"
    by (simp add: Let_def trim_def is_space_def test_env_def)
  let ?blank = "signed_dropin ''  '' ''pay_1''"
  let ?dreq = "u1_request ?blank"
  let ?drun = "save_order_dropin test_env ''auto'' ?dreq Map.empty"
  have "fst ?drun = Inr (JObj [(''success'', JBool True), (''id'', JStr ''pay_1'')])"
    by (simp add: dropin_run test_run u1_request_def signed_dropin_def)
  then have drun: "?drun = (Inr (JObj [(''success'', JBool True), (''id'', JStr ''pay_1'')]),
      snd ?drun)"
    by (simp add: prod_eq_iff)
  have dpayload: "get (body ?dreq) ''orderData'' = ?blank"
    by (simp add: u1_request_def)
  have "get ?blank ''order_id'' = JStr ''  '' \<and> ascii ''  '' \<and>
      get ?blank ''payment_id'' = JStr ''pay_1'' \<and> ascii ''pay_1''"
    by (simp add: signed_dropin_def ascii_def)
  with drun have dropin_hyps:
    "?drun = (Inr (JObj [(''success'', JBool True), (''id'', JStr ''pay_1'')]), snd ?drun) \<and>
     get ?blank ''order_id'' = JStr ''  '' \<and> ascii ''  '' \<and>
     get ?blank ''payment_id'' = JStr ''pay_1'' \<and> ascii ''pay_1''"
    by blast
  from document_id_precedence [OF dpayload, THEN conjunct2, rule_format, OF dropin_hyps]
  have dropin: "\<exists>doc. snd ?drun = [''pay_1'' \<mapsto> \<lparr> written = doc, committed = 1700000000000 \<rparr>]"
    by (simp add: Let_def trim_def is_space_def test_env_def)
  from answer revised dropin show ?thesis
    by blast
qed

text \<open>
  C5 (as stated, refuted). The record that the store holds after the second call is
  not the record after the first: the store sets \<^verbatim>\<open>createdAt\<close> to the commit time of
  each write, so two calls at different times leave different records. And a payload
  without an identifier of its own is written twice: the drop-in server accepts a
  payload whose \<^verbatim>\<open>order_id\<close> and \<^verbatim>\<open>payment_id\<close> are blank and writes it under the
  identifier the store generates, a new one at each call.
\<close>

theorem second_confirm_counterexample:
  "snd (save_order_revised (test_env\<lparr>commit_time := 2\<rparr>) ''auto-2''
          (confirm_request None payload_u1)
          (snd (save_order_revised (test_env\<lparr>commit_time := 1\<rparr>) ''auto-1''
                  (confirm_request None payload_u1) Map.empty))) \<noteq>
   snd (save_order_revised (test_env\<lparr>commit_time := 1\<rparr>) ''auto-1''
          (confirm_request None payload_u1) Map.empty) \<and>
   fst (save_order_dropin test_env ''auto-1'' (u1_request (signed_dropin ''  '' '' ''))
          Map.empty) =
     Inr (JObj [(''success'', JBool True), (''id'', JStr ''auto-1'')]) \<and>
   fst (save_order_dropin test_env ''auto-2'' (u1_request (signed_dropin ''  '' '' ''))
          (snd (save_order_dropin test_env ''auto-1'' (u1_request (signed_dropin ''  '' '' ''))
                  Map.empty))) =
     Inr (JObj [(''success'', JBool True), (''id'', JStr ''auto-2'')]) \<and>
   dom (snd (save_order_dropin test_env ''auto-2'' (u1_request (signed_dropin ''  '' '' ''))
          (snd (save_order_dropin test_env ''auto-1'' (u1_request (signed_dropin ''  '' '' ''))
                  Map.empty)))) =
     {''auto-2'', ''auto-1''}"
proof -
  let ?req = "confirm_request None payload_u1"
  let ?first = "snd (save_order_revised (test_env\<lparr>commit_time := 1\<rparr>) ''auto-1'' ?req
    Map.empty)"
  let ?second = "snd (save_order_revised (test_env\<lparr>commit_time := 2\<rparr>) ''auto-2'' ?req
    ?first)"
  have first_time: "map_option committed (?first ''order_1'') = Some 1"
    by (simp add: revised_run test_run)
  have second_time: "map_option committed (?second ''order_1'') = Some 2"
    by (simp add: revised_run test_run)
  have revised: "?second \<noteq> ?first"
  proof
    assume "?second = ?first"
    then have "map_option committed (?second ''order_1'') =
        map_option committed (?first ''order_1'')"
      by (rule arg_cong)
    then show False
      unfolding first_time second_time by simp
  qed
  let ?dreq = "u1_request (signed_dropin ''  '' '' '')"
  let ?dfirst = "save_order_dropin test_env ''auto-1'' ?dreq Map.empty"
  let ?dsecond = "save_order_dropin test_env ''auto-2'' ?dreq (snd ?dfirst)"
  have first: "fst ?dfirst = Inr (JObj [(''success'', JBool True), (''id'', JStr ''auto-1'')])"
    by (simp add: dropin_run test_run u1_request_def signed_dropin_def)
  have second: "fst ?dsecond = Inr (JObj [(''success'', JBool True), (''id'', JStr ''auto-2'')])"
    by (simp add: dropin_run test_run u1_request_def signed_dropin_def)
  have both: "dom (snd ?dsecond) = {''auto-2'', ''auto-1''}"
    by (simp add: dropin_run test_run u1_request_def signed_dropin_def)
  from revised first second both show ?thesis
    by (intro conjI)
qed

text \<open>
  C5 (amended). Take a request that Confirm has accepted once, whose identifiers are
  ASCII strings and whose payload carries an identifier of its own: on the revised
  server \<^verbatim>\<open>order_id\<close> (which may also be absent or falsy) or \<^verbatim>\<open>razorpay_order_id\<close>, not
  empty when trimmed; on the drop-in server \<^verbatim>\<open>order_id\<close> or \<^verbatim>\<open>payment_id\<close>, not blank.
  Confirm the same request again, on the store the first call has left, at the commit
  time \<open>t2\<close>, with the secret, the identity provider, the gateway and the store
  answering as before, and whatever identifier the store would generate. Then the
  second call returns the response of the first, with the same identifier, and writes
  under that identifier the record that the first has written, with the commit time
  \<open>t2\<close> in the place of that of the first call: the document of the first call is
  replaced, no other document changes and no second document is created. The two
  stores are equal except for the time that the store puts for the \<^verbatim>\<open>serverTimestamp\<close>
  of the record (\<^verbatim>\<open>createdAt\<close>, on the drop-in server \<^verbatim>\<open>datePlaced\<close>).
\<close>

theorem confirm_idempotent:
  assumes od: "get (body req) ''orderData'' = od"
  shows
    "(\<forall>resp docs1 oid rid.
        save_order_revised e fresh1 req docs = (Inr resp, docs1) \<and>
        (get od ''order_id'' = JStr oid \<or> \<not> truthy (get od ''order_id'') \<and> oid = []) \<and>
        ascii oid \<and> get od ''razorpay_order_id'' = JStr rid \<and> ascii rid \<and>
        (trim oid \<noteq> [] \<or> trim rid \<noteq> []) \<longrightarrow>
          (let docId = (if trim oid \<noteq> [] then trim oid else trim rid)
           in \<exists>doc.
                resp = JObj [(''success'', JBool True), (''id'', JStr docId)] \<and>
                docs1 = docs(docId \<mapsto> \<lparr> written = doc, committed = commit_time e \<rparr>) \<and>
                save_order_revised (e\<lparr>commit_time := t2\<rparr>) fresh2 req docs1 =
                  (Inr resp, docs1(docId \<mapsto> \<lparr> written = doc, committed = t2 \<rparr>)))) \<and>
     (\<forall>resp docs1 oid pid.
        save_order_dropin e fresh1 req docs = (Inr resp, docs1) \<and>
        get od ''order_id'' = JStr oid \<and> ascii oid \<and>
        get od ''payment_id'' = JStr pid \<and> ascii pid \<and>
        (trim oid \<noteq> [] \<or> trim pid \<noteq> []) \<longrightarrow>
          (let docId = (if trim oid \<noteq> [] then oid else pid)
           in \<exists>doc.
                resp = JObj [(''success'', JBool True), (''id'', JStr docId)] \<and>
                docs1 = docs(docId \<mapsto> \<lparr> written = doc, committed = commit_time e \<rparr>) \<and>
                save_order_dropin (e\<lparr>commit_time := t2\<rparr>) fresh2 req docs1 =
                  (Inr resp, docs1(docId \<mapsto> \<lparr> written = doc, committed = t2 \<rparr>))))"
proof (intro conjI allI impI)
  fix resp docs1 oid rid
  assume h: "save_order_revised e fresh1 req docs = (Inr resp, docs1) \<and>
    (get od ''order_id'' = JStr oid \<or> \<not> truthy (get od ''order_id'') \<and> oid = []) \<and>
    ascii oid \<and> get od ''razorpay_order_id'' = JStr rid \<and> ascii rid \<and>
    (trim oid \<noteq> [] \<or> trim rid \<noteq> [])"
  let ?docId = "if trim oid \<noteq> [] then trim oid else trim rid"
  from h have rid: "get od ''razorpay_order_id'' = JStr rid"
    and own: "trim oid \<noteq> [] \<or> trim rid \<noteq> []"
    and first: "save_order_revised e fresh1 req docs = (Inr resp, docs1)"
    by simp_all
  from h have "get od ''order_id'' = JStr oid \<or> \<not> truthy (get od ''order_id'') \<and> oid = []"
    by simp
  then have id: "finalDocId fresh od = ?docId" for fresh
  proof
    assume "get od ''order_id'' = JStr oid"
    then show ?thesis
      using rid own trim_nonempty [of oid] trim_nonempty [of rid]
      by (auto simp: finalDocId_precedence Let_def)
  next
    assume "\<not> truthy (get od ''order_id'') \<and> oid = []"
    then show ?thesis
      using rid own trim_nonempty [of rid] by (auto simp: finalDocId_precedence Let_def trim_Nil)
  qed
  from revised_success [OF od first] obtain doc
    where doc: "formattedOrder_revised ?docId od = Some doc"
      and defined: "\<not> has_undefined doc" and accepts: "store_accepts e ?docId doc"
      and resp: "resp = JObj [(''success'', JBool True), (''id'', JStr ?docId)]"
      and docs1: "docs1 = docs(?docId \<mapsto> \<lparr> written = doc, committed = commit_time e \<rparr>)"
    unfolding id by blast
  have "save_order_revised (e\<lparr>commit_time := t2\<rparr>) fresh2 req docs1 =
      persist_revised (e\<lparr>commit_time := t2\<rparr>) fresh2 od docs1"
    using od first by (rule revised_accepted_again)
  also have "\<dots> = (Inr resp, docs1(?docId \<mapsto> \<lparr> written = doc, committed = t2 \<rparr>))"
    using doc defined accepts resp
    by (simp add: persist_revised_def store_set_def id Let_def)
  finally have "save_order_revised (e\<lparr>commit_time := t2\<rparr>) fresh2 req docs1 =
      (Inr resp, docs1(?docId \<mapsto> \<lparr> written = doc, committed = t2 \<rparr>))" .
  with resp docs1
  show "let docId = ?docId
     in \<exists>doc.
          resp = JObj [(''success'', JBool True), (''id'', JStr docId)] \<and>
          docs1 = docs(docId \<mapsto> \<lparr> written = doc, committed = commit_time e \<rparr>) \<and>
          save_order_revised (e\<lparr>commit_time := t2\<rparr>) fresh2 req docs1 =
            (Inr resp, docs1(docId \<mapsto> \<lparr> written = doc, committed = t2 \<rparr>))"
    unfolding Let_def by blast
next
  fix resp docs1 oid pid
  assume h: "save_order_dropin e fresh1 req docs = (Inr resp, docs1) \<and>
    get od ''order_id'' = JStr oid \<and> ascii oid \<and>
    get od ''payment_id'' = JStr pid \<and> ascii pid \<and>
    (trim oid \<noteq> [] \<or> trim pid \<noteq> [])"
  let ?docId = "if trim oid \<noteq> [] then oid else pid"
  from h have first: "save_order_dropin e fresh1 req docs = (Inr resp, docs1)"
    and ids: "get od ''order_id'' = JStr oid" "get od ''payment_id'' = JStr pid"
    and own: "trim oid \<noteq> [] \<or> trim pid \<noteq> []"
    by simp_all
  have id: "docId_dropin fresh od = ?docId" for fresh
    using ids own by (auto simp: docId_dropin_precedence)
  from dropin_success [OF od first] obtain uid doc
    where token: "verifyFirebaseToken e req = Some uid"
      and doc: "formattedOrder_dropin uid od = Some doc"
      and defined: "\<not> has_undefined doc" and accepts: "store_accepts e ?docId doc"
      and resp: "resp = JObj [(''success'', JBool True), (''id'', JStr ?docId)]"
      and docs1: "docs1 = docs(?docId \<mapsto> \<lparr> written = doc, committed = commit_time e \<rparr>)"
    unfolding id by blast
  have "save_order_dropin (e\<lparr>commit_time := t2\<rparr>) fresh2 req docs1 =
      (Inr resp, docs1(?docId \<mapsto> \<lparr> written = doc, committed = t2 \<rparr>))"
    using defined accepts resp
    by (simp add: dropin_accepted_again [OF od first token doc] store_set_def id)
  with resp docs1
  show "let docId = ?docId
     in \<exists>doc.
          resp = JObj [(''success'', JBool True), (''id'', JStr docId)] \<and>
          docs1 = docs(docId \<mapsto> \<lparr> written = doc, committed = commit_time e \<rparr>) \<and>
          save_order_dropin (e\<lparr>commit_time := t2\<rparr>) fresh2 req docs1 =
            (Inr resp, docs1(docId \<mapsto> \<lparr> written = doc, committed = t2 \<rparr>))"
    unfolding Let_def by blast
qed

theorem confirm_idempotent_witness:
  "(\<exists>doc.
      save_order_revised test_env ''auto-1'' (confirm_request None payload_u1) Map.empty =
        (Inr (JObj [(''success'', JBool True), (''id'', JStr ''order_1'')]),
         [''order_1'' \<mapsto> \<lparr> written = doc, committed = 1700000000000 \<rparr>]) \<and>
      save_order_revised (test_env\<lparr>commit_time := 1700000060000\<rparr>) ''auto-2''
        (confirm_request None payload_u1)
        [''order_1'' \<mapsto> \<lparr> written = doc, committed = 1700000000000 \<rparr>] =
        (Inr (JObj [(''success'', JBool True), (''id'', JStr ''order_1'')]),
         [''order_1'' \<mapsto> \<lparr> written = doc, committed = 1700000060000 \<rparr>])) \<and>
   (\<exists>doc.
      save_order_dropin test_env ''auto-1'' (u1_request dropin_payload) Map.empty =
        (Inr (JObj [(''success'', JBool True), (''id'', JStr ''order_1'')]),
         [''order_1'' \<mapsto> \<lparr> written = doc, committed = 1700000000000 \<rparr>]) \<and>
      save_order_dropin (test_env\<lparr>commit_time := 1700000060000\<rparr>) ''auto-2''
        (u1_request dropin_payload)
        [''order_1'' \<mapsto> \<lparr> written = doc, committed = 1700000000000 \<rparr>] =
        (Inr (JObj [(''success'', JBool True), (''id'', JStr ''order_1'')]),
         [''order_1'' \<mapsto> \<lparr> written = doc, committed = 1700000060000 \<rparr>]))"
proof -
  let ?resp = "JObj [(''success'', JBool True), (''id'', JStr ''order_1'')]"
  let ?req = "confirm_request None payload_u1"
  let ?run = "save_order_revised test_env ''auto-1'' ?req Map.empty"
  have "fst ?run = Inr ?resp"
    by (simp add: revised_run test_run)
  then have run: "?run = (Inr ?resp, snd ?run)"
    by (simp add: prod_eq_iff)
  have payload: "get (body ?req) ''orderData'' = payload_u1"
    by (simp add: confirm_request_def)
  have "\<not> truthy (get payload_u1 ''order_id'') \<and> ascii [] \<and>
      get payload_u1 ''razorpay_order_id'' = JStr ''order_1'' \<and> ascii ''order_1'' \<and>
      trim ''order_1'' = ''order_1''"
    by (simp add: test_run ascii_def trim_def is_space_def)
  with run have revised_hyps:
    "?run = (Inr ?resp, snd ?run) \<and>
     (get payload_u1 ''order_id'' = JStr [] \<or> \<not> truthy (get payload_u1 ''order_id'') \<and> [] = []) \<and>
     ascii [] \<and> get payload_u1 ''razorpay_order_id'' = JStr ''order_1'' \<and> ascii ''order_1'' \<and>
     (trim [] \<noteq> [] \<or> trim ''order_1'' \<noteq> [])"
    by simp
  have time: "commit_time test_env = 1700000000000"
    by (simp add: test_env_def)
  from confirm_idempotent [of ?req payload_u1 test_env "''auto-1''" Map.empty 1700000060000
      "''auto-2''", OF payload, THEN conjunct1, rule_format, OF revised_hyps] run
  have revised: "\<exists>doc.
      ?run = (Inr ?resp, [''order_1'' \<mapsto> \<lparr> written = doc, committed = 1700000000000 \<rparr>]) \<and>
      save_order_revised (test_env\<lparr>commit_time := 1700000060000\<rparr>) ''auto-2'' ?req
        [''order_1'' \<mapsto> \<lparr> written = doc, committed = 1700000000000 \<rparr>] =
        (Inr ?resp, [''order_1'' \<mapsto> \<lparr> written = doc, committed = 1700000060000 \<rparr>])"
    unfolding Let_def trim_Nil time by (auto simp: trim_def is_space_def)
  let ?dreq = "u1_request dropin_payload"
  let ?drun = "save_order_dropin test_env ''auto-1'' ?dreq Map.empty"
  have "fst ?drun = Inr ?resp"
    by (simp add: dropin_run test_run u1_request_def dropin_payload_def dropin_fields_def)
  then have drun: "?drun = (Inr ?resp, snd ?drun)"
    by (simp add: prod_eq_iff)
  have dpayload: "get (body ?dreq) ''orderData'' = dropin_payload"
    by (simp add: u1_request_def)
  have "get dropin_payload ''order_id'' = JStr ''order_1'' \<and> ascii ''order_1'' \<and>
      get dropin_payload ''payment_id'' = JStr ''pay_1'' \<and> ascii ''pay_1'' \<and>
      trim ''order_1'' = ''order_1''"
    by (simp add: dropin_payload_def dropin_fields_def ascii_def trim_def is_space_def)
  with drun have dropin_hyps:
    "?drun = (Inr ?resp, snd ?drun) \<and>
     get dropin_payload ''order_id'' = JStr ''order_1'' \<and> ascii ''order_1'' \<and>
     get dropin_payload ''payment_id'' = JStr ''pay_1'' \<and> ascii ''pay_1'' \<and>
     (trim ''order_1'' \<noteq> [] \<or> trim ''pay_1'' \<noteq> [])"
    by simp
  from confirm_idempotent [of ?dreq dropin_payload test_env "''auto-1''" Map.empty
      1700000060000 "''auto-2''", OF dpayload, THEN conjunct2, rule_format, OF dropin_hyps] drun
  have dropin: "\<exists>doc.
      ?drun = (Inr ?resp, [''order_1'' \<mapsto> \<lparr> written = doc, committed = 1700000000000 \<rparr>]) \<and>
      save_order_dropin (test_env\<lparr>commit_time := 1700000060000\<rparr>) ''auto-2'' ?dreq
        [''order_1'' \<mapsto> \<lparr> written = doc, committed = 1700000000000 \<rparr>] =
        (Inr ?resp, [''order_1'' \<mapsto> \<lparr> written = doc, committed = 1700000060000 \<rparr>])"
    unfolding Let_def time by (auto simp: trim_def is_space_def)
  from revised dropin show ?thesis
    by (intro conjI)
qed

subsection \<open>End to end\<close>

text \<open>
  C3 (as stated, refuted). On the drop-in server Initiate with amount 10000 creates a
  gateway order of amount 1000000: it takes the amount for rupees and multiplies it by
  100. On the revised server Confirm with the payload of the scenario
  (\<^verbatim>\<open>razorpay_order_id\<close>, \<^verbatim>\<open>razorpay_payment_id\<close>, the right signature, total 10000 and
  the customer) is answered \<open>MissingField userId\<close> and nothing is stored.
\<close>

theorem scenario_counterexample:
  "create_order_dropin test_env 1700000000000
     \<lparr>authorization = None, body = JObj [(''amount'', JNum (Fin 10000))]\<rparr> =
     Inr (JObj [(''id'', JStr ''order_1''), (''amount'', JNum (Fin 1000000))]) \<and>
   get scenario_payload ''razorpay_signature'' =
     JStr (hmac_sha256_hex test_env (signing_key test_env) ''order_1|pay_1'') \<and>
   save_order_revised test_env ''auto'' (confirm_request None scenario_payload) Map.empty =
     (Inl (MissingField ''userId''), Map.empty)"
  by (simp add: create_order_dropin_def options_dropin_def times_100_def isNaN_def
      not_positive_def revised_run test_run)

text \<open>
  C3 (amended). Revised server. Initiate with amount 10000 asks the gateway for an
  order of amount 10000, the amount the caller passed (the drop-in server asks for
  1000000): when the gateway creates an order that records the amount it was asked
  for, the recorded amount is 10000 and Initiate returns that order. A later Confirm
  whose payload is that of the scenario (\<^verbatim>\<open>razorpay_order_id\<close> \<^verbatim>\<open>order_1\<close>,
  \<^verbatim>\<open>razorpay_payment_id\<close> \<^verbatim>\<open>pay_1\<close>, the digest of \<^verbatim>\<open>order_1|pay_1\<close> as signature, total
  10000, customer \<^verbatim>\<open>{name: "A"}\<close>) together with a non-empty \<^verbatim>\<open>userId\<close>, sent without a
  verified token or with a token of that user, succeeds when the digest is not the
  empty string, the gateway returns for \<^verbatim>\<open>order_1\<close> an order of amount 10000 and the
  store accepts the write: the response carries the identifier \<^verbatim>\<open>order_1\<close>, and the
  record written under it has \<^verbatim>\<open>totalAmount\<close> 10000 and \<^verbatim>\<open>paymentStatus\<close> \<^verbatim>\<open>Paid\<close>.
\<close>

theorem end_to_end_with_userId:
  assumes digest: "hmac_sha256_hex e (signing_key e) ''order_1|pay_1'' \<noteq> []"
    and user: "uid \<noteq> []"
    and payload:
      "body req =
         JObj [(''orderData'',
           JObj [(''userId'', JStr uid),
                 (''razorpay_order_id'', JStr ''order_1''),
                 (''razorpay_payment_id'', JStr ''pay_1''),
                 (''razorpay_signature'',
                    JStr (hmac_sha256_hex e (signing_key e) ''order_1|pay_1'')),
                 (''total'', JNum (Fin 10000)),
                 (''customer'', JObj [(''name'', JStr ''A'')])])]"
    and credential:
      "verifyIdTokenFromRequest e req = None \<or> verifyIdTokenFromRequest e req = Some uid"
    and gateway: "orders_fetch e (JStr ''order_1'') = Some go"
    and amount: "get go ''amount'' = JNum (Fin 10000)"
    and store: "\<forall>doc. store_accepts e ''order_1'' doc"
  shows
    "get (options_revised now (JNum (Fin 10000))) ''amount'' = JNum (Fin 10000) \<and>
     get (options_dropin now (JNum (Fin 10000))) ''amount'' = JNum (Fin 1000000) \<and>
     (\<forall>order.
        orders_create e (options_revised now (JNum (Fin 10000))) = Some order \<and>
        \<not> nullish order \<and>
        get order ''amount'' = get (options_revised now (JNum (Fin 10000))) ''amount'' \<longrightarrow>
          get order ''amount'' = JNum (Fin 10000) \<and>
          create_order_revised e now
            \<lparr>authorization = auth, body = JObj [(''amount'', JNum (Fin 10000))]\<rparr> =
            Inr (JObj [(''success'', JBool True), (''id'', get order ''id''),
                       (''order'', order)])) \<and>
     fst (save_order_revised e fresh req docs) =
       Inr (JObj [(''success'', JBool True), (''id'', JStr ''order_1'')]) \<and>
     (\<exists>doc. snd (save_order_revised e fresh req docs) =
        docs(''order_1'' \<mapsto> \<lparr> written = doc, committed = commit_time e \<rparr>) \<and>
        get doc ''totalAmount'' = JNum (Fin 10000) \<and>
        get doc ''paymentStatus'' = JStr ''Paid'')"
proof (intro conjI allI impI)
  show requested: "get (options_revised now (JNum (Fin 10000))) ''amount'' = JNum (Fin 10000)"
    by (simp add: options_revised_def round_number_def)
  show "get (options_dropin now (JNum (Fin 10000))) ''amount'' = JNum (Fin 1000000)"
    by (simp add: options_dropin_def times_100_def)
  fix order
  assume created: "orders_create e (options_revised now (JNum (Fin 10000))) = Some order \<and>
    \<not> nullish order \<and>
    get order ''amount'' = get (options_revised now (JNum (Fin 10000))) ''amount''"
  then show "get order ''amount'' = JNum (Fin 10000)"
    by (simp add: requested)
  from created show "create_order_revised e now
      \<lparr>authorization = auth, body = JObj [(''amount'', JNum (Fin 10000))]\<rparr> =
      Inr (JObj [(''success'', JBool True), (''id'', get order ''id''), (''order'', order)])"
    by (simp add: create_order_revised_def isNaN_def not_positive_def)
next
  let ?od = "JObj [(''userId'', JStr uid),
                 (''razorpay_order_id'', JStr ''order_1''),
                 (''razorpay_payment_id'', JStr ''pay_1''),
                 (''razorpay_signature'',
                    JStr (hmac_sha256_hex e (signing_key e) ''order_1|pay_1'')),
                 (''total'', JNum (Fin 10000)),
                 (''customer'', JObj [(''name'', JStr ''A'')])]"
  have od: "get (body req) ''orderData'' = ?od"
    by (simp add: payload)
  have fields: "missing_required ?od required = None"
    using digest user by (simp add: required_def)
  have identity: "case verifyIdTokenFromRequest e req of
      Some u \<Rightarrow> get ?od ''userId'' = JStr u | None \<Rightarrow> True"
    using credential by auto
  have signature: "get ?od ''razorpay_signature'' = JStr (expectedSignature e ?od)"
    by (simp add: expectedSignature_def)
  have "\<not> nullish go"
    using amount by (cases go) simp_all
  then have reconciled: "reconcile_revised e fresh ?od docs = persist_revised e fresh ?od docs"
    using gateway amount by (simp add: reconcile_revised_def)
  have docId: "finalDocId fresh ?od = ''order_1''"
    by (simp add: finalDocId_def candidateId_def js_or_def js_and_def trim_def is_space_def)
  obtain doc where doc: "formattedOrder_revised ''order_1'' ?od = Some doc"
    by (simp add: formattedOrder_revised_def items_revised_def Let_def)
  have defined: "\<not> has_undefined doc"
    using doc user digest
    by (auto simp: formattedOrder_revised_def items_revised_def address_revised_def
        number_or_zero_def js_or_def js_and_def Let_def)
  have run: "save_order_revised e fresh req docs =
      (Inr (JObj [(''success'', JBool True), (''id'', JStr ''order_1'')]),
       docs(''order_1'' \<mapsto> \<lparr> written = doc, committed = commit_time e \<rparr>))"
    using revised_reaches_reconcile [OF od fields identity signature, of fresh docs]
      reconciled doc defined store
    by (simp add: persist_revised_def store_set_def docId Let_def)
  then show "fst (save_order_revised e fresh req docs) =
      Inr (JObj [(''success'', JBool True), (''id'', JStr ''order_1'')])"
    by simp
  have "get doc ''totalAmount'' = JNum (Fin 10000)"
    using formattedOrder_revised_fields(2) [OF doc]
    by (simp add: number_or_zero_def js_or_def)
  moreover have "get doc ''paymentStatus'' = JStr ''Paid''"
    using formattedOrder_revised_fields(3) [OF doc]
    by (simp add: js_or_def)
  ultimately show "\<exists>doc. snd (save_order_revised e fresh req docs) =
      docs(''order_1'' \<mapsto> \<lparr> written = doc, committed = commit_time e \<rparr>) \<and>
      get doc ''totalAmount'' = JNum (Fin 10000) \<and> get doc ''paymentStatus'' = JStr ''Paid''"
    using run by auto
qed

theorem end_to_end_with_userId_witness:
  "create_order_revised test_env 1700000000000
     \<lparr>authorization = None, body = JObj [(''amount'', JNum (Fin 10000))]\<rparr> =
     Inr (JObj [(''success'', JBool True), (''id'', JStr ''order_1''),
                (''order'', JObj [(''id'', JStr ''order_1''), (''amount'', JNum (Fin 10000))])]) \<and>
   fst (save_order_revised test_env ''auto'' (confirm_request None payload_u1) Map.empty) =
     Inr (JObj [(''success'', JBool True), (''id'', JStr ''order_1'')]) \<and>
   (\<exists>doc. snd (save_order_revised test_env ''auto'' (confirm_request None payload_u1)
       Map.empty) = [''order_1'' \<mapsto> \<lparr> written = doc, committed = 1700000000000 \<rparr>] \<and>
      get doc ''totalAmount'' = JNum (Fin 10000) \<and>
      get doc ''paymentStatus'' = JStr ''Paid'')"
proof -
  have digest: "hmac_sha256_hex test_env (signing_key test_env) ''order_1|pay_1'' \<noteq> []"
    by (simp add: test_env_def stub_hmac_def)
  have user: "''u1'' \<noteq> []"
    by simp
  have payload:
    "body (confirm_request None payload_u1) =
       JObj [(''orderData'',
         JObj [(''userId'', JStr ''u1''),
               (''razorpay_order_id'', JStr ''order_1''),
               (''razorpay_payment_id'', JStr ''pay_1''),
               (''razorpay_signature'',
                  JStr (hmac_sha256_hex test_env (signing_key test_env) ''order_1|pay_1'')),
               (''total'', JNum (Fin 10000)),
               (''customer'', JObj [(''name'', JStr ''A'')])])]"
    by (simp add: test_run signing_key_def)
  have credential:
    "verifyIdTokenFromRequest test_env (confirm_request None payload_u1) = None \<or>
     verifyIdTokenFromRequest test_env (confirm_request None payload_u1) = Some ''u1''"
    by (simp add: verifyIdTokenFromRequest_def bearer_token_def confirm_request_def)
  have gateway: "orders_fetch test_env (JStr ''order_1'') = Some test_order"
    by (simp add: test_env_def)
  have amount: "get test_order ''amount'' = JNum (Fin 10000)"
    by (simp add: test_order_def)
  have store: "\<forall>doc. store_accepts test_env ''order_1'' doc"
    by (simp add: test_env_def)
  let ?order = "JObj [(''id'', JStr ''order_1''), (''amount'', JNum (Fin 10000))]"
  have created:
    "orders_create test_env (options_revised 1700000000000 (JNum (Fin 10000))) = Some ?order \<and>
     \<not> nullish ?order \<and>
     get ?order ''amount'' = get (options_revised 1700000000000 (JNum (Fin 10000))) ''amount''"
    by (simp add: test_env_def options_revised_def round_number_def)
  note scenario = end_to_end_with_userId [OF digest user payload credential gateway amount
      store, of 1700000000000 None "''auto''" Map.empty]
  from scenario [THEN conjunct2, THEN conjunct2, THEN conjunct1, rule_format, OF created]
  have initiate: "create_order_revised test_env 1700000000000
      \<lparr>authorization = None, body = JObj [(''amount'', JNum (Fin 10000))]\<rparr> =
      Inr (JObj [(''success'', JBool True), (''id'', JStr ''order_1''), (''order'', ?order)])"
    by simp
  from scenario have "fst (save_order_revised test_env ''auto'' (confirm_request None payload_u1)
      Map.empty) = Inr (JObj [(''success'', JBool True), (''id'', JStr ''order_1'')]) \<and>
    (\<exists>doc. snd (save_order_revised test_env ''auto'' (confirm_request None payload_u1)
       Map.empty) = [''order_1'' \<mapsto> \<lparr> written = doc, committed = 1700000000000 \<rparr>] \<and>
      get doc ''totalAmount'' = JNum (Fin 10000) \<and>
      get doc ''paymentStatus'' = JStr ''Paid'')"
    by (simp add: test_env_def)
  with initiate show ?thesis
    by (intro conjI) simp_all
qed

subsection \<open>Undefined values in the written record\<close>









end
